theory Spec2Isabelle
  imports Main
begin

section \<open>Python strings\<close>

text \<open>
  Strings are character lists, and the model is one of ASCII text, which is what every
  keyword of the program consists of: case mapping acts on the letters \<open>A\<close> to \<open>Z\<close>
  and \<open>a\<close> to \<open>z\<close> and leaves other characters unchanged, and the digits are \<open>0\<close>
  to \<open>9\<close>. White space is what \<open>str.isspace\<close> accepts among the first 256 code points.
\<close>

definition ascii_uppercase :: string where
  "ascii_uppercase = ''ABCDEFGHIJKLMNOPQRSTUVWXYZ''"

definition ascii_lowercase :: string where
  "ascii_lowercase = ''abcdefghijklmnopqrstuvwxyz''"

definition lower_char :: "char \<Rightarrow> char" where
  "lower_char c =
     (case map_of (zip ascii_uppercase ascii_lowercase) c of Some l \<Rightarrow> l | None \<Rightarrow> c)"

definition upper_char :: "char \<Rightarrow> char" where
  "upper_char c =
     (case map_of (zip ascii_lowercase ascii_uppercase) c of Some u \<Rightarrow> u | None \<Rightarrow> c)"

text \<open>\<open>s.lower()\<close> and \<open>s.upper()\<close>.\<close>

definition lower :: "string \<Rightarrow> string" where
  "lower s = map lower_char s"

definition upper :: "string \<Rightarrow> string" where
  "upper s = map upper_char s"

text \<open>\<open>s.startswith(p)\<close>.\<close>

fun startswith :: "string \<Rightarrow> string \<Rightarrow> bool" where
  "startswith s [] = True"
| "startswith [] (p # ps) = False"
| "startswith (c # cs) (p # ps) = (c = p \<and> startswith cs ps)"

text \<open>\<open>sub in s\<close> on strings: \<open>sub\<close> occurs in \<open>s\<close> as a contiguous run.\<close>

fun str_in :: "string \<Rightarrow> string \<Rightarrow> bool" where
  "str_in sub [] = (sub = [])"
| "str_in sub (c # cs) = (startswith (c # cs) sub \<or> str_in sub cs)"

text \<open>\<open>sep.join(xs)\<close>.\<close>

fun str_join :: "string \<Rightarrow> string list \<Rightarrow> string" where
  "str_join sep [] = []"
| "str_join sep [x] = x"
| "str_join sep (x # y # ys) = x @ sep @ str_join sep (y # ys)"

text \<open>
  \<open>s.split(sep)\<close> for a non-empty separator (a literal at every call site): the string is
  scanned from the left, every occurrence of the separator closes a field, and the scan
  resumes behind the occurrence. The counter is the number of separator characters still
  to be skipped, the accumulator the field read so far, reversed.
\<close>

fun split_scan :: "string \<Rightarrow> nat \<Rightarrow> string \<Rightarrow> string \<Rightarrow> string list" where
  "split_scan sep k acc [] = [rev acc]"
| "split_scan sep (Suc k) acc (c # cs) = split_scan sep k acc cs"
| "split_scan sep 0 acc (c # cs) =
     (if startswith (c # cs) sep then rev acc # split_scan sep (length sep - 1) [] cs
      else split_scan sep 0 (c # acc) cs)"

definition str_split :: "string \<Rightarrow> string \<Rightarrow> string list" where
  "str_split s sep = split_scan sep 0 [] s"

text \<open>\<open>s.strip()\<close>: leading and trailing whitespace removed.\<close>

definition isspace :: "char \<Rightarrow> bool" where
  "isspace c = (c \<in> set [CHR '' '', CHR 0x09, CHR 0x0A, CHR 0x0B, CHR 0x0C, CHR 0x0D,
                           CHR 0x1C, CHR 0x1D, CHR 0x1E, CHR 0x1F, CHR 0x85, CHR 0xA0])"

definition strip :: "string \<Rightarrow> string" where
  "strip s = rev (dropWhile isspace (rev (dropWhile isspace s)))"

text \<open>The regular-expression class \<open>\d\<close>.\<close>

definition isdigit :: "char \<Rightarrow> bool" where
  "isdigit c = (c \<in> set ''0123456789'')"


section \<open>Part numbers (utils.py)\<close>

text \<open>
  The group \<open>(?:[XRN]|SC)\<close> at the head of a string: the rest behind the letter, if one
  is there.
\<close>

fun match_letter :: "string \<Rightarrow> string option" where
  "match_letter [] = None"
| "match_letter (c # cs) =
     (if c \<in> set ''XRN'' then Some cs
      else if c = CHR ''S'' then (case cs of [] \<Rightarrow> None
              | d # ds \<Rightarrow> if d = CHR ''C'' then Some ds else None)
      else None)"

text \<open>
  One attempt of \<open>\d+(?:[XRN]|SC)\d+\<close> at the head of a string, giving the matched text.
  Both digit runs are greedy. Giving back digits of the first run cannot help, since the
  character behind a shorter run is a digit and not a letter, so the attempt succeeds
  exactly when the longest run is followed by a letter and a digit.
\<close>

definition match_at :: "string \<Rightarrow> string option" where
  "match_at s =
     (let d1 = takeWhile isdigit s; r1 = dropWhile isdigit s in
      if d1 = [] then None
      else case match_letter r1 of
             None \<Rightarrow> None
           | Some r2 \<Rightarrow>
               (let d2 = takeWhile isdigit r2 in
                if d2 = [] then None
                else Some (take (length s - length (dropWhile isdigit r2)) s)))"

text \<open>
  \<open>re.findall(r"\d+(?:[XRN]|SC)\d+", s)\<close>: the non-overlapping matches from left to
  right. The counter is the number of characters of the last match still to be skipped.
\<close>

fun findall_scan :: "nat \<Rightarrow> string \<Rightarrow> string list" where
  "findall_scan k [] = []"
| "findall_scan (Suc k) (c # cs) = findall_scan k cs"
| "findall_scan 0 (c # cs) =
     (case match_at (c # cs) of
        Some m \<Rightarrow> m # findall_scan (length m - 1) cs
      | None \<Rightarrow> findall_scan 0 cs)"

definition findall :: "string \<Rightarrow> string list" where
  "findall s = findall_scan 0 s"

text \<open>The dictionary \<open>letter_patterns\<close>, in insertion order.\<close>

definition letter_patterns :: "(string \<times> string) list" where
  "letter_patterns = [(''R'', ''R''), (''X'', ''X''), (''N'', ''N''), (''SC'', ''SC'')]"

text \<open>
  \<open>Utils.validate_part_number\<close>. The first component is the value stored in
  \<open>self.letter_identifier\<close>, the second the value returned. A pattern without
  metacharacters is searched for as a substring.
\<close>

definition validate_part_number :: "string \<Rightarrow> string option \<times> string option" where
  "validate_part_number part_number =
     (let matches = findall part_number;
          letter_identifier =
            map_option fst (find (\<lambda>(letter, pattern). str_in pattern part_number)
                                 letter_patterns)
      in if length matches > 0 then (letter_identifier, letter_identifier)
         else (letter_identifier, None))"


section \<open>Parameter comparison (utils.py)\<close>

text \<open>A cell of the expected-value column: a string, a list of alternatives or \<open>None\<close>.\<close>

datatype pyval = Str string | Lst "string list" | NoneVal

datatype error =
  ValueError | OverflowError | AttributeError | UnboundLocalError | UndefinedVariableError

datatype style = Red_bold | Black_normal

record attr_row =
  Parameters :: string
  Expected_Value :: pyval
  Actual_Value :: string
  Should_be_Equal :: bool

fun format_device_code :: "pyval \<Rightarrow> pyval" where
  "format_device_code (Lst [x]) = Str x"
| "format_device_code (Lst (x # y # ys)) = Str (str_join '' or '' (x # y # ys))"
| "format_device_code expected_value = expected_value"

definition modify_expected_value :: "attr_row \<Rightarrow> pyval" where
  "modify_expected_value row =
     (let parameter = Parameters row in
      if parameter \<in> set [''Number of S/C'', ''Number of C/C''] then Str ''(Digit, Not Blank)''
      else if parameter = ''Application'' then Str ''(Type of Application, Not Blank)''
      else if \<not> Should_be_Equal row then Str ''(Not Blank)'' else Expected_Value row)"

text \<open>
  \<open>highlight_row\<close>: the style given to every cell of the row. On the device-code row
  the expected value is split, which only a string supports.
\<close>

definition highlight_row :: "attr_row \<Rightarrow> error + style" where
  "highlight_row x =
     (if Parameters x \<noteq> ''Device Code'' then
        (if (Str (Actual_Value x) \<noteq> Expected_Value x \<and> Should_be_Equal x)
            \<or> (\<not> Should_be_Equal x \<and> Actual_Value x = '''')
         then Inr Red_bold else Inr Black_normal)
      else (case Expected_Value x of
              Str e \<Rightarrow>
                (if Actual_Value x \<notin> set (str_split e '' or '') then Inr Red_bold
                 else Inr Black_normal)
            | Lst _ \<Rightarrow> Inl AttributeError
            | NoneVal \<Rightarrow> Inl AttributeError))"

text \<open>
  The two column rewrites of \<open>get_attribute_values\<close> on one row, followed by the
  styling of that row.
\<close>

definition format_row :: "attr_row \<Rightarrow> attr_row" where
  "format_row row =
     (let r1 = row\<lparr>Expected_Value :=
                  (if Parameters row = ''Device Code''
                   then format_device_code (Expected_Value row)
                   else Expected_Value row)\<rparr>
      in r1\<lparr>Expected_Value := modify_expected_value r1\<rparr>)"

definition styled_row :: "attr_row \<Rightarrow> error + style" where
  "styled_row row = highlight_row (format_row row)"

text \<open>
  The entries \<open>Device Code\<close> of the table \<open>required_attributes\<close> in
  \<open>Utils.attributes\<close>, by type and letter identifier. The entry stands among the
  \<open>equal_fields\<close> of the section \<open>Product\<close> of every key of the table.
\<close>

definition device_codes :: "((string \<times> string) \<times> pyval) list" where
  "device_codes =
     [((''FLC-20'', ''R''), Lst [''21024'', ''50017'']),
      ((''FLC-20'', ''X''), Lst [''21024'', ''50017'']),
      ((''FLC-20'', ''N''), Lst [''21024'', ''50017'']),
      ((''FLC-20'', ''SC''), Lst [''21024'', ''50017'']),
      ((''FLR-21'', ''R''), Lst [''4963'', ''50013'', ''50016'']),
      ((''FLR-21'', ''X''), Lst [''4963'', ''50013'', ''50016'']),
      ((''FLR-21'', ''N''), Lst [''4963'', ''50013'', ''50016'']),
      ((''FLR-21'', ''SC''), Lst [''4963'', ''50013'', ''50016'']),
      ((''FLC-25'', ''R''), Str ''50024''),
      ((''FLC-25'', ''X''), Str ''50024''),
      ((''FLC-25'', ''SC''), Str ''50024''),
      ((''FLR-25'', ''R''), Lst [''50007'', ''50022'']),
      ((''FLR-25'', ''X''), Lst [''50007'', ''50022'']),
      ((''FLR-25'', ''SC''), Lst [''50007'', ''50022''])]"

text \<open>
  The row that \<open>get_attribute_values\<close> builds for the device code of a part, from the
  entry of the table and the value read from the page (\<open>None\<close> for a key without entry).
\<close>

definition device_code_row :: "string \<Rightarrow> string \<Rightarrow> string \<Rightarrow> attr_row option" where
  "device_code_row type_value letter observed =
     map_option
       (\<lambda>expected_value. \<lparr>Parameters = ''Device Code'', Expected_Value = expected_value,
                           Actual_Value = observed, Should_be_Equal = True\<rparr>)
       (map_of device_codes (type_value, letter))"


section \<open>Classification (fusion3.py)\<close>

datatype DropdownType =
  FLC_20 | FLR_21 | FLC_25 | FLR_25 | FLR_25_BRACKET | FLC_25_BRACKET | FLC_25_COVER

fun dropdown_value :: "DropdownType \<Rightarrow> string" where
  "dropdown_value FLC_20 = ''FLC-20''"
| "dropdown_value FLR_21 = ''FLR-21''"
| "dropdown_value FLC_25 = ''FLC-25''"
| "dropdown_value FLR_25 = ''FLR-25''"
| "dropdown_value FLR_25_BRACKET = ''FLR-25 Bracket''"
| "dropdown_value FLC_25_BRACKET = ''FLC-25 Bracket''"
| "dropdown_value FLC_25_COVER = ''FLC-25 Cover''"

text \<open>
  The attributes of a \<open>Fusion3\<close> object that the reconciliation reads. The letter
  identifier is the string returned by the part-number validation, or \<open>None\<close>.
\<close>

record fusion3 =
  part_number :: string
  title_id_value :: string
  letter_identifier :: "string option"
  chbx_bracket :: bool
  chbx_resistor :: bool
  type_dropdown :: DropdownType
  radar_in_title :: bool
  camera_in_title :: bool
  bracket_in_title :: bool
  cover_in_title :: bool
  element_name :: string
  is_am_bracket :: bool

text \<open>
  \<open>Fusion3.initialize_main_params\<close>, on an object whose aftermarket flag is \<open>am\<close>. The
  browser handle and the XPath are stored and not read by the reconciliation.
\<close>

definition initialize_main_params ::
  "bool \<Rightarrow> string \<Rightarrow> string \<Rightarrow> string option \<Rightarrow> bool \<Rightarrow> bool \<Rightarrow> DropdownType
     \<Rightarrow> error + fusion3" where
  "initialize_main_params am pn title letter bracket resistor dropdown =
     (let self = \<lparr>part_number = pn, title_id_value = title, letter_identifier = letter,
                   chbx_bracket = bracket, chbx_resistor = resistor, type_dropdown = dropdown,
                   radar_in_title = str_in ''radar'' (lower title),
                   camera_in_title = str_in ''camera'' (lower title),
                   bracket_in_title = str_in ''bracket assembly'' (lower title),
                   cover_in_title = str_in ''cover'' (lower title),
                   element_name = '''', is_am_bracket = am\<rparr>
      in if dropdown_value dropdown \<in> set [''FLR-25 Bracket'', ''FLC-25 Bracket''] then
           (if \<not> bracket_in_title self then Inl ValueError
            else Inr (self\<lparr>element_name := ''Bracket''\<rparr>))
         else if dropdown_value dropdown \<in> set [''FLC-25 Cover''] then
           (if \<not> cover_in_title self then Inl ValueError
            else Inr (self\<lparr>element_name := ''Cover''\<rparr>))
         else
           (if \<not> (radar_in_title self \<or> camera_in_title self) then Inl ValueError
            else Inr (self\<lparr>element_name :=
                              (if radar_in_title self then ''Radar'' else ''Camera'')\<rparr>)))"


section \<open>Structural reconciliation (fusion3.py)\<close>

text \<open>An observed row: title, quantity as text, description and identifier.\<close>

type_synonym title_tuple = "string \<times> string \<times> string \<times> string"

text \<open>\<open>Fusion3.get_required_elements\<close>.\<close>

definition get_required_elements :: "fusion3 \<Rightarrow> string \<Rightarrow> string list" where
  "get_required_elements self name =
     (let can = (if chbx_resistor self then [''with CAN termination'']
                 else [''wo CAN termination'']);
          elements = [];
          elements =
            (if name = ''Radar'' then
               (if letter_identifier self = Some ''X'' then
                  [''Dataset'', ''Software'', ''Boot Software''] @ can
                else if letter_identifier self = Some ''R'' then
                  [''Dataset'', ''Software'', ''Boot Software'']
                  @ (if chbx_bracket self then [''Screw'', ''Bracket'', ''Nut''] else [])
                  @ can
                else if letter_identifier self = Some ''SC'' then
                  [''Dataset'', ''Software'', ''Boot Software''] @ can
                else elements)
             else elements);
          elements =
            (if name = ''Camera'' then
               (if letter_identifier self \<in> set [Some ''X'', Some ''SC''] then
                  [''Dataset'', ''Software'', ''Boot Software'', ''Camera'']
                else if letter_identifier self = Some ''R'' then
                  [''Dataset'', ''Software'', ''Boot Software'', ''Camera'']
                else elements)
             else elements);
          elements =
            (if name = ''Bracket'' \<and> dropdown_value (type_dropdown self) = ''FLR-25 Bracket''
             then (if is_am_bracket self then [''Screw'', ''Bracket'', ''Nut'']
                   else [''Bracket'', ''Nut''])
             else elements);
          elements =
            (if name = ''Bracket'' \<and> dropdown_value (type_dropdown self) = ''FLC-25 Bracket''
             then [''Bracket'', ''Bracket Assembly'', ''Worm'', ''Tape'']
             else elements);
          elements =
            (if name = ''Cover'' \<and> dropdown_value (type_dropdown self) = ''FLC-25 Cover''
             then [''Cover'']
             else elements)
      in elements)"

text \<open>The first pass: the required names that no observed title contains.\<close>

definition first_pass :: "string list \<Rightarrow> title_tuple list \<Rightarrow> string list" where
  "first_pass required_elements titles =
     filter (\<lambda>element. \<not> list_ex (\<lambda>(title, _, _, _). str_in element title) titles)
            required_elements"

text \<open>
  \<open>re.search\<close> for a literal followed by \<open>\d{n}\<close>, the shape of both version
  patterns (\<open>VER FU\d{6}\<close> and \<open>NA\d{6}\<close>).
\<close>

definition lit_digits_at :: "string \<Rightarrow> nat \<Rightarrow> string \<Rightarrow> bool" where
  "lit_digits_at lit n s =
     (startswith s lit \<and> n \<le> length (drop (length lit) s)
      \<and> list_all isdigit (take n (drop (length lit) s)))"

fun re_search_version :: "string \<Rightarrow> nat \<Rightarrow> string \<Rightarrow> bool" where
  "re_search_version lit n [] = lit_digits_at lit n []"
| "re_search_version lit n (c # cs) =
     (lit_digits_at lit n (c # cs) \<or> re_search_version lit n cs)"

text \<open>
  The dataset inference, the same statements on the radar and on the camera path:
  two software rows, one of them describing a data set, stand for the dataset.
\<close>

definition dataset_inference :: "title_tuple list \<Rightarrow> string list \<Rightarrow> string list" where
  "dataset_inference titles missing_elements =
     (if ''Dataset'' \<in> set missing_elements then
        (let software = filter (\<lambda>(title, _, _, _). str_in ''software'' (lower title)) titles;
             count_software = length software
         in if count_software \<ge> 2
               \<and> list_ex (\<lambda>(_, _, description, _).
                      str_in ''DATASET'' (upper description)
                      \<or> str_in ''DATA SET'' (upper description)) software
            then remove1 ''Dataset'' missing_elements
            else missing_elements)
      else missing_elements)"

text \<open>
  The boot-software step; the keyword looked for in the description is
  \<open>boot software\<close> on the radar path and \<open>boot\<close> on the camera path.
\<close>

definition boot_software_check ::
  "string \<Rightarrow> title_tuple list \<Rightarrow> string list \<Rightarrow> string list" where
  "boot_software_check keyword titles missing_elements =
     (let boot_software_found =
            list_ex (\<lambda>(title, _, description, _).
                       str_in ''software'' (lower title)
                       \<and> str_in keyword (lower description)) titles
      in if \<not> boot_software_found then missing_elements @ [''Boot Software'']
         else if ''Boot Software'' \<in> set missing_elements
              then remove1 ''Boot Software'' missing_elements
              else missing_elements)"

text \<open>The software-version step, for the version pattern \<open>lit\d{n}\<close>.\<close>

definition software_version_check ::
  "string \<Rightarrow> nat \<Rightarrow> title_tuple list \<Rightarrow> string list \<Rightarrow> string list" where
  "software_version_check lit n titles missing_elements =
     (let software_ver_found =
            list_ex (\<lambda>(title, _, description, _).
                       str_in ''software'' (lower title)
                       \<and> re_search_version lit n description)
              (filter (\<lambda>(_, _, description, _).
                         \<not> str_in ''boot software'' (lower description)) titles)
      in if \<not> software_ver_found \<and> ''Software'' \<notin> set missing_elements
         then missing_elements @ [''Software'']
         else missing_elements)"

text \<open>
  The CAN-termination step for the generic name \<open>generic\<close>, the reference identifier
  \<open>ref\<close> and the entry \<open>qualified\<close> reported when no row carries it.
\<close>

definition can_termination_check ::
  "string \<Rightarrow> string \<Rightarrow> string \<Rightarrow> title_tuple list \<Rightarrow> string list \<Rightarrow> string list" where
  "can_termination_check generic ref qualified titles missing_elements =
     (let can_termination =
            list_ex (\<lambda>(title, _, description, ident).
                       str_in ''radar'' (lower title)
                       \<and> str_in (lower generic) (lower description)
                       \<and> upper ident = ref) titles;
          missing_elements =
            (if generic \<in> set missing_elements then remove1 generic missing_elements
             else missing_elements)
      in if \<not> can_termination then missing_elements @ [qualified]
         else missing_elements)"

definition radar_corrections :: "fusion3 \<Rightarrow> title_tuple list \<Rightarrow> string list \<Rightarrow> string list" where
  "radar_corrections self titles missing_elements =
     (if radar_in_title self
         \<and> letter_identifier self \<in> set [Some ''R'', Some ''SC'', Some ''X''] then
        (let m = dataset_inference titles missing_elements;
             m = boot_software_check ''boot software'' titles m;
             m = software_version_check ''VER FU'' 6 titles m
         in if chbx_resistor self then
              can_termination_check ''with CAN termination'' ''K218450H002''
                ''Radar with CAN termination (K218450H002)'' titles m
            else
              can_termination_check ''wo CAN termination'' ''K188333H002''
                ''Radar without CAN termination (K188333H002)'' titles m)
      else missing_elements)"

text \<open>\<open>xs[xs.index(x)] = y\<close>: the first occurrence of \<open>x\<close> replaced.\<close>

fun replace_first :: "'a \<Rightarrow> 'a \<Rightarrow> 'a list \<Rightarrow> 'a list" where
  "replace_first x y [] = []"
| "replace_first x y (z # zs) = (if z = x then y # zs else z # replace_first x y zs)"

definition camera_corrections :: "fusion3 \<Rightarrow> title_tuple list \<Rightarrow> string list \<Rightarrow> string list" where
  "camera_corrections self titles missing_elements =
     (if camera_in_title self
         \<and> letter_identifier self \<in> set [Some ''R'', Some ''SC'', Some ''X''] then
        (let result =
               find (\<lambda>(title, _, _, ident).
                       str_in ''camera'' (lower title) \<and> upper ident = ''K188332H000'') titles;
             m = (if result = None then
                    (if ''Camera'' \<in> set missing_elements
                     then replace_first ''Camera'' ''Camera (K188332H000)'' missing_elements
                     else missing_elements @ [''Camera (K188332H000)''])
                  else missing_elements);
             m = dataset_inference titles m;
             m = boot_software_check ''boot'' titles m
         in software_version_check ''NA'' 6 titles m)
      else missing_elements)"

definition bracket_corrections :: "fusion3 \<Rightarrow> title_tuple list \<Rightarrow> string list \<Rightarrow> string list" where
  "bracket_corrections self titles missing_elements =
     (if bracket_in_title self \<and> dropdown_value (type_dropdown self) = ''FLC-25 Bracket'' then
        (let bracket_found =
               list_ex (\<lambda>(title, _, _, _).
                          str_in ''bracket'' (lower title)
                          \<and> \<not> str_in ''assembly'' (lower title)) titles
         in if \<not> bracket_found \<and> ''Bracket'' \<notin> set missing_elements
            then missing_elements @ [''Bracket'']
            else missing_elements)
      else missing_elements)"

text \<open>The list \<open>missing_elements\<close> as it stands when the tabulation starts.\<close>

definition missing_elements_of :: "fusion3 \<Rightarrow> title_tuple list \<Rightarrow> string list" where
  "missing_elements_of self titles =
     bracket_corrections self titles
       (camera_corrections self titles
          (radar_corrections self titles
             (first_pass (get_required_elements self (element_name self)) titles)))"


subsection \<open>Quantity tabulation and result\<close>

text \<open>
  A row of the data frame. The conversion \<open>int(float(quantity))\<close> of the quantity text
  is the parameter \<open>conv\<close> of the functions below: the exception where the conversion
  raises (\<open>ValueError\<close> for a text that is not a number, \<open>OverflowError\<close> for an
  infinity), the integer it gives otherwise. An exception ends the call where it is
  raised.
\<close>

record bom_row =
  ID :: string
  Title :: string
  Description :: string
  Quantity :: int
  Expected_value :: int

text \<open>The inner loop of the tabulation, for one required element.\<close>

fun rows_of_element ::
  "(string \<Rightarrow> error + int) \<Rightarrow> fusion3 \<Rightarrow> string \<Rightarrow> int \<Rightarrow> title_tuple list
     \<Rightarrow> error + bom_row list" where
  "rows_of_element conv self element expected_value [] = Inr []"
| "rows_of_element conv self element expected_value ((title, quantity, description, ident) # rest) =
     (case conv quantity of
        Inl e \<Rightarrow> Inl e
      | Inr qty \<Rightarrow>
          (let row = \<lparr>ID = ident, Title = title, Description = description,
                       Quantity = qty, Expected_value = expected_value\<rparr>;
               matched =
                 (if dropdown_value (type_dropdown self) = ''FLC-25 Bracket''
                     \<and> element = ''Bracket''
                  then str_in (lower element) (lower title)
                       \<and> \<not> str_in ''assembly'' (lower title)
                  else str_in element title
                       \<or> (element \<in> set [''wo CAN termination'', ''with CAN termination'']
                           \<and> str_in (lower element) (lower description)))
           in case rows_of_element conv self element expected_value rest of
                Inl e \<Rightarrow> Inl e
              | Inr rows \<Rightarrow> Inr ((if matched then [row] else []) @ rows)))"

text \<open>The outer loop, over the required elements.\<close>

fun rows_of_required ::
  "(string \<Rightarrow> error + int) \<Rightarrow> fusion3 \<Rightarrow> string list \<Rightarrow> title_tuple list
     \<Rightarrow> error + bom_row list" where
  "rows_of_required conv self [] titles = Inr []"
| "rows_of_required conv self (element # elements) titles =
     (let expected_value = (if element \<in> set [''Nut'', ''Screw''] then 3 else 1)
      in case rows_of_element conv self element expected_value titles of
           Inl e \<Rightarrow> Inl e
         | Inr rows \<Rightarrow>
             (case rows_of_required conv self elements titles of
                Inl e \<Rightarrow> Inl e
              | Inr others \<Rightarrow> Inr (rows @ others)))"

text \<open>
  The rows whose description names the CAN termination that is not the required one.
\<close>

fun rows_of_other_can ::
  "(string \<Rightarrow> error + int) \<Rightarrow> string list \<Rightarrow> title_tuple list \<Rightarrow> error + bom_row list" where
  "rows_of_other_can conv required_elements [] = Inr []"
| "rows_of_other_can conv required_elements ((title, quantity, description, ident) # rest) =
     (if (''wo CAN termination'' \<in> set required_elements
          \<and> str_in (lower ''with CAN termination'') (lower description))
         \<or> (''with CAN termination'' \<in> set required_elements
             \<and> str_in (lower ''wo CAN termination'') (lower description))
      then (case conv quantity of
              Inl e \<Rightarrow> Inl e
            | Inr qty \<Rightarrow>
                (case rows_of_other_can conv required_elements rest of
                   Inl e \<Rightarrow> Inl e
                 | Inr rows \<Rightarrow>
                     Inr (\<lparr>ID = ident, Title = title, Description = description,
                           Quantity = qty, Expected_value = 1\<rparr> # rows)))
      else rows_of_other_can conv required_elements rest)"

text \<open>The first screw row, recorded with expected quantity 3; the loop stops there.\<close>

fun first_screw_row ::
  "(string \<Rightarrow> error + int) \<Rightarrow> title_tuple list \<Rightarrow> error + bom_row list" where
  "first_screw_row conv [] = Inr []"
| "first_screw_row conv ((title, quantity, description, ident) # rest) =
     (if str_in ''screw'' (lower title) then
        (case conv quantity of
           Inl e \<Rightarrow> Inl e
         | Inr qty \<Rightarrow>
             Inr [\<lparr>ID = ident, Title = title, Description = description,
                   Quantity = qty, Expected_value = 3\<rparr>])
      else first_screw_row conv rest)"

text \<open>The whole data frame, or the error that ends the call.\<close>

definition data_rows ::
  "(string \<Rightarrow> error + int) \<Rightarrow> fusion3 \<Rightarrow> string list \<Rightarrow> title_tuple list
     \<Rightarrow> error + bom_row list" where
  "data_rows conv self required_elements titles =
     (case rows_of_required conv self required_elements titles of
        Inl e \<Rightarrow> Inl e
      | Inr rows1 \<Rightarrow>
          (case rows_of_other_can conv required_elements titles of
             Inl e \<Rightarrow> Inl e
           | Inr rows2 \<Rightarrow>
               (if letter_identifier self = Some ''SC'' \<and> ''Screw'' \<notin> set required_elements
                then (case first_screw_row conv titles of
                        Inl e \<Rightarrow> Inl e
                      | Inr rows3 \<Rightarrow> Inr (rows1 @ rows2 @ rows3))
                else Inr (rows1 @ rows2))))"

text \<open>\<open>highlight_mismatched_values\<close>, the style of a row of the data frame.\<close>

definition highlight_mismatched_values :: "bom_row \<Rightarrow> style" where
  "highlight_mismatched_values val =
     (if Quantity val \<noteq> Expected_value val then Red_bold else Black_normal)"

text \<open>
  The message of the result: the missing elements, or the success text with the renamed
  required elements (preceded by the screw note on an \<open>SC\<close> part), or nothing.
\<close>

datatype bom_msg =
  Missing_elements "string list"
| Successful bool "string list"
| No_message

record bom_result =
  msg :: bom_msg
  df :: "bom_row list"

definition rename_required :: "string list \<Rightarrow> string list" where
  "rename_required required_elements =
     map (\<lambda>item. if item = ''Camera'' then ''Camera (K188332H000)'' else item)
       (map (\<lambda>item. if item = ''with CAN termination''
                     then ''Radar with CAN termination (K218450H002)'' else item)
          (map (\<lambda>item. if item = ''wo CAN termination''
                        then ''Radar wo CAN termination (K188333H002)'' else item)
             required_elements))"

text \<open>
  \<open>Fusion3.get_bom_in_content\<close> on the rows that the expansion of the content table
  returned.
\<close>

definition get_bom_in_content ::
  "(string \<Rightarrow> error + int) \<Rightarrow> fusion3 \<Rightarrow> title_tuple list \<Rightarrow> error + bom_result" where
  "get_bom_in_content conv self titles =
     (let required_elements = get_required_elements self (element_name self);
          missing_elements = missing_elements_of self titles
      in case data_rows conv self required_elements titles of
           Inl e \<Rightarrow> Inl e
         | Inr rows \<Rightarrow>
             (if missing_elements \<noteq> [] then
                Inr \<lparr>msg = Missing_elements missing_elements, df = rows\<rparr>
              else if letter_identifier self
                        \<in> set [Some ''R'', Some ''X'', Some ''SC'', Some ''B'', Some ''Cover'']
              then Inr \<lparr>msg = Successful (letter_identifier self = Some ''SC'')
                                  (rename_required required_elements),
                         df = rows\<rparr>
              else Inr \<lparr>msg = No_message, df = rows\<rparr>))"

text \<open>
  A reading of quantity texts for concrete runs. A text is stripped of white space and
  may carry a sign; \<open>inf\<close> and \<open>infinity\<close> in any case give the overflow error of the
  integer conversion and \<open>nan\<close> its value error; digits with an optional fraction give
  the integer before the point, since the conversion truncates. Any other text is taken
  as not a number. The reading is \<open>int(float(s))\<close> on these forms with at most fifteen
  digits; a text with an exponent or with underscores is outside of it.
\<close>

definition digit_value :: "char \<Rightarrow> int" where
  "digit_value c = int (length (takeWhile (\<lambda>d. d \<noteq> c) ''0123456789''))"

definition decimal_value :: "string \<Rightarrow> int" where
  "decimal_value ds = foldl (\<lambda>acc c. 10 * acc + digit_value c) 0 ds"

definition unsigned_quantity :: "string \<Rightarrow> error + int" where
  "unsigned_quantity s =
     (let whole = takeWhile isdigit s; r = dropWhile isdigit s in
      if lower s \<in> set [''inf'', ''infinity''] then Inl OverflowError
      else if lower s = ''nan'' then Inl ValueError
      else if r = [] then (if whole = [] then Inl ValueError else Inr (decimal_value whole))
      else if hd r = CHR ''.'' \<and> list_all isdigit (tl r) \<and> \<not> (whole = [] \<and> tl r = [])
           then Inr (decimal_value whole)
           else Inl ValueError)"

definition int_of_float_text :: "string \<Rightarrow> error + int" where
  "int_of_float_text s =
     (case strip s of
        [] \<Rightarrow> Inl ValueError
      | c # cs \<Rightarrow>
          if c = CHR ''-'' then
            (case unsigned_quantity cs of Inl e \<Rightarrow> Inl e | Inr n \<Rightarrow> Inr (- n))
          else if c = CHR ''+'' then unsigned_quantity cs
          else unsigned_quantity (c # cs))"


section \<open>Document reconciliation (fusion3.py)\<close>

text \<open>
  An entry of the dictionary \<open>documents\<close>, in insertion order: the title (the key),
  the document kind and the lifecycle state.
\<close>

type_synonym document = "string \<times> string \<times> string"

definition required_states :: "string list" where
  "required_states = [''Working'', ''Proposed'', ''Rejected'', ''Approved'', ''Released'']"

text \<open>
  The branch that binds \<open>required_docs\<close> and \<open>optional_docs\<close> (\<open>None\<close> for a name that
  the branch taken leaves unbound), and whether the note that no documents are required
  is printed.
\<close>

definition required_docs_of :: "fusion3 \<Rightarrow> string list option \<times> string list option \<times> bool" where
  "required_docs_of self =
     (if element_name self = ''Radar'' then
        (if letter_identifier self = Some ''R'' then
           (Some [''Assembly Drawing'', ''Installation Drawing'', ''Component Drawing'',
                  ''Service Data''], None, False)
         else
           (Some [''Assembly Drawing'', ''Component Drawing'', ''Service Data''], None, False))
      else if element_name self = ''Bracket'' then
        (let st = (None, None, False);
             st = (if dropdown_value (type_dropdown self) \<in> set [''FLR-25 Bracket''] then
                     (let optional_docs = [''Feasibility Agreement (FeA) (DMI)'',
                                           ''Mechanical TR Document'',
                                           ''Electrical TR Document'', ''Test Report''];
                          required_docs = [''Material Specification'', ''Supplier PPAP'',
                                           ''Order Drawing'', ''DVP''] @ optional_docs
                      in if is_am_bracket self then (Some [], Some optional_docs, True)
                         else (Some required_docs, Some optional_docs, False))
                   else st);
             st = (if dropdown_value (type_dropdown self) \<in> set [''FLC-25 Bracket''] then
                     (let optional_docs = [''Electrical TR Document'', ''Process Data Sheet''];
                          required_docs = [''Technical Customer Document'', ''Assembly Drawing'',
                                           ''Installation Drawing''] @ optional_docs
                      in (Some required_docs, Some optional_docs, snd (snd st)))
                   else st)
         in st)
      else if element_name self = ''Cover''
              \<and> dropdown_value (type_dropdown self) \<in> set [''FLC-25 Cover''] then
        (if is_am_bracket self then (Some [''Component Drawing''], None, False)
         else (Some [''Installation Drawing'', ''Component Drawing''], None, False))
      else
        (if letter_identifier self = Some ''R'' then
           (Some [''Assembly Drawing'', ''Installation Drawing'', ''Service Data''], None, False)
         else (Some [''Assembly Drawing'', ''Service Data''], None, False)))"

text \<open>The language tokens of a title: \<open>[lang.strip() for lang in index.split(",")[1:]]\<close>.\<close>

definition title_langs :: "string \<Rightarrow> string list" where
  "title_langs index = map strip (tl (str_split index '',''))"

text \<open>
  The language check of one service-data record, on the value stored under the only key
  \<open>US\<close> of \<open>service_data_missing_langs\<close>: the key is cleared when the title names
  \<open>US\<close>, and when it names \<open>EN\<close>.
\<close>

definition mark_languages :: "string \<Rightarrow> bool \<Rightarrow> bool" where
  "mark_languages index us =
     (let langs = title_langs index;
          us = (if ''US'' \<in> set langs then False else us)
      in if ''EN'' \<in> set langs then False else us)"

text \<open>
  One round of the loop over \<open>required_docs\<close>. The state is the list of present
  documents, the list of missing documents and the value stored under the only key
  \<open>US\<close> of \<open>service_data_missing_langs\<close>.
\<close>

definition check_doc_type ::
  "document list \<Rightarrow> string \<Rightarrow> document list \<times> string list \<times> bool
     \<Rightarrow> document list \<times> string list \<times> bool" where
  "check_doc_type required_documents doc_type st =
     (let present_docs_list = fst st; missing_docs = fst (snd st); us = snd (snd st);
          rows = filter (\<lambda>(index, kind, state). kind = doc_type) required_documents;
          doc_exists = (rows \<noteq> []);
          present_docs_list = present_docs_list @ rows;
          us = (if doc_type = ''Service Data'' then
                  fold (\<lambda>(index, kind, state). mark_languages index) rows us
                else us);
          schedule = (\<lambda>(index, kind, state). str_in ''schedule'' (lower index));
          missing_docs =
            (if doc_type = ''Assembly Drawing'' then
               (if rows = [] then
                  missing_docs @ [''Assembly Drawing Schedule'', ''Assembly Drawing CAD'']
                else
                  missing_docs
                  @ (if \<not> list_ex schedule rows then [''Assembly Drawing Schedule''] else [])
                  @ (if list_all schedule rows then [''Assembly Drawing CAD''] else []))
             else missing_docs);
          doc_exists = (if doc_type = ''Assembly Drawing'' then True else doc_exists);
          missing_docs = (if \<not> doc_exists then missing_docs @ [doc_type] else missing_docs)
      in (present_docs_list, missing_docs, us))"

text \<open>
  The result: the pieces of the message and the present documents. The returned frame
  holds the present documents ordered by lifecycle state.
\<close>

record docs_result =
  no_documents_found :: bool
  no_documents_required :: bool
  missing_documents :: "string list"
  service_data_advice :: bool
  optional_advice :: "string list"
  all_present :: "string list option"
  present_documents :: "document list"

definition language_families :: "string list" where
  "language_families = [''FLC-20'', ''FLR-21'', ''FLC-25'', ''FLR-25'']"

text \<open>
  \<open>Fusion3.validate_required_docs\<close>. The query of the data frame reads
  \<open>required_docs\<close> by name and raises its own error for a name that is not bound.
\<close>

definition validate_required_docs :: "fusion3 \<Rightarrow> document list \<Rightarrow> error + docs_result" where
  "validate_required_docs self documents =
     (if documents = [] then
        Inr \<lparr>no_documents_found = True, no_documents_required = False,
             missing_documents = [], service_data_advice = False, optional_advice = [],
             all_present = None, present_documents = []\<rparr>
      else
        (case required_docs_of self of
           (None, optional, note) \<Rightarrow> Inl UndefinedVariableError
         | (Some required_docs, optional, note) \<Rightarrow>
             (let required_documents =
                    filter (\<lambda>(index, kind, state).
                              kind \<in> set required_docs \<and> state \<in> set required_states)
                           documents;
                  st = fold (check_doc_type required_documents) required_docs ([], [], True);
                  present_docs_list = fst st; missing_docs = fst (snd st); us = snd (snd st);
                  missing_docs =
                    (if dropdown_value (type_dropdown self) \<in> set language_families \<and> us then
                       (if ''Service Data'' \<in> set missing_docs
                        then remove1 ''Service Data'' missing_docs else missing_docs)
                       @ [''Service Data - US'']
                     else missing_docs);
                  missing_docs =
                    (if dropdown_value (type_dropdown self) \<in> set [''FLC-25 Bracket''] then
                       map (\<lambda>item. if item \<noteq> ''Process Data Sheet'' then item
                                    else ''Process Data Sheet (BWs)'') missing_docs
                     else missing_docs)
              in if missing_docs \<noteq> [] then
                   (let advice =
                          (dropdown_value (type_dropdown self) \<in> set language_families
                           \<and> list_ex (str_in ''Service Data'') missing_docs)
                    in if dropdown_value (type_dropdown self)
                            \<in> set [''FLR-25 Bracket'', ''FLC-25 Bracket'']
                       then (case optional of
                               None \<Rightarrow> Inl UnboundLocalError
                             | Some optional_docs \<Rightarrow>
                                 Inr \<lparr>no_documents_found = False, no_documents_required = note,
                                      missing_documents = missing_docs,
                                      service_data_advice = advice,
                                      optional_advice =
                                        filter (\<lambda>element. list_ex (str_in element) missing_docs)
                                               optional_docs,
                                      all_present = None,
                                      present_documents = present_docs_list\<rparr>)
                       else Inr \<lparr>no_documents_found = False, no_documents_required = note,
                                 missing_documents = missing_docs,
                                 service_data_advice = advice, optional_advice = [],
                                 all_present = None,
                                 present_documents = present_docs_list\<rparr>)
                 else Inr \<lparr>no_documents_found = False, no_documents_required = note,
                           missing_documents = missing_docs,
                           service_data_advice = False, optional_advice = [],
                           all_present = Some required_docs,
                           present_documents = present_docs_list\<rparr>)))"


section \<open>A validation run\<close>

text \<open>
  The caller initialises the object and then asks for the reconciliation; an error of
  the first call ends the run.
\<close>

definition structure_run ::
  "(string \<Rightarrow> error + int) \<Rightarrow> string \<Rightarrow> string \<Rightarrow> string option \<Rightarrow> bool \<Rightarrow> bool
     \<Rightarrow> DropdownType \<Rightarrow> title_tuple list \<Rightarrow> error + bom_result" where
  "structure_run conv pn title letter bracket resistor dropdown titles =
     (case initialize_main_params False pn title letter bracket resistor dropdown of
        Inl e \<Rightarrow> Inl e
      | Inr self \<Rightarrow> get_bom_in_content conv self titles)"

definition documents_run ::
  "string \<Rightarrow> string \<Rightarrow> string option \<Rightarrow> bool \<Rightarrow> bool \<Rightarrow> DropdownType \<Rightarrow> document list
     \<Rightarrow> error + docs_result" where
  "documents_run pn title letter bracket resistor dropdown documents =
     (case initialize_main_params False pn title letter bracket resistor dropdown of
        Inl e \<Rightarrow> Inl e
      | Inr self \<Rightarrow> validate_required_docs self documents)"


text \<open>
  The entries that one round of the loop over \<open>required_docs\<close> appends to the list of
  missing documents.
\<close>

definition missing_of_type :: "document list \<Rightarrow> string \<Rightarrow> string list" where
  "missing_of_type required_documents doc_type =
     (let rows = filter (\<lambda>(index, kind, state). kind = doc_type) required_documents;
          schedule = (\<lambda>(index, kind, state). str_in ''schedule'' (lower index))
      in if doc_type = ''Assembly Drawing'' then
           (if rows = [] then [''Assembly Drawing Schedule'', ''Assembly Drawing CAD'']
            else (if \<not> list_ex schedule rows then [''Assembly Drawing Schedule''] else [])
                 @ (if list_all schedule rows then [''Assembly Drawing CAD''] else []))
         else if rows = [] then [doc_type] else [])"


section \<open>Example parts\<close>

text \<open>
  A radar of variant \<open>X\<close> without CAN termination and without bracket, as the
  initialisation leaves the object, and three content tables for it: one with every
  required element and a software quantity of 2, one without boot software, and the two
  software rows of the dataset scenario.
\<close>

definition radar_x_part :: fusion3 where
  "radar_x_part =
     \<lparr>part_number = ''K012345X67'', title_id_value = ''Radar'',
      letter_identifier = Some ''X'', chbx_bracket = False, chbx_resistor = False,
      type_dropdown = FLR_25, radar_in_title = True, camera_in_title = False,
      bracket_in_title = False, cover_in_title = False, element_name = ''Radar'',
      is_am_bracket = False\<rparr>"

definition complete_rows :: "title_tuple list" where
  "complete_rows =
     [(''Dataset'', ''1'', ''Data set'', ''K000001''),
      (''Software'', ''2'', ''VER FU123456'', ''K000002''),
      (''Software'', ''1'', ''Boot Software'', ''K000003''),
      (''Radar'', ''1'', ''wo CAN termination'', ''K188333H002'')]"

definition rows_without_boot :: "title_tuple list" where
  "rows_without_boot =
     [(''Dataset'', ''1'', ''Data set'', ''K000001''),
      (''Software'', ''1'', ''VER FU123456'', ''K000002''),
      (''Radar'', ''1'', ''wo CAN termination'', ''K188333H002'')]"

definition dataset_scenario_rows :: "title_tuple list" where
  "dataset_scenario_rows =
     [(''Software A'', ''1'', ''Radar DATA SET'', ''K000004''),
      (''Software B'', ''1'', ''VER FU123456'', ''K000005'')]"

text \<open>A camera of variant \<open>R\<close> of the family FLC-25.\<close>

definition camera_r_part :: fusion3 where
  "camera_r_part =
     \<lparr>part_number = ''K012345R67'', title_id_value = ''Camera'',
      letter_identifier = Some ''R'', chbx_bracket = False, chbx_resistor = False,
      type_dropdown = FLC_25, radar_in_title = False, camera_in_title = True,
      bracket_in_title = False, cover_in_title = False, element_name = ''Camera'',
      is_am_bracket = False\<rparr>"


text \<open>
  Two documents of that camera: an assembly drawing that is not a schedule, and service
  data in French only.
\<close>

definition example_documents :: "document list" where
  "example_documents =
     [(''Z012345-DRAWING, 001'', ''Assembly Drawing'', ''Released''),
      (''DocX, FR'', ''Service Data'', ''Released'')]"


section \<open>The variant letter of a part number\<close>

text \<open>
  C1. The letter returned for a part number is meant to be the letter of the matched
  digits-letter-digits pattern. In \<open>K012345X67-R\<close> the only match is \<open>012345X67\<close>,
  whose letter is \<open>X\<close>, and the validation returns \<open>R\<close>: the letter is looked for
  anywhere in the part number, \<open>R\<close> first.
\<close>

theorem validate_part_number_letter_outside_match:
  "findall ''K012345X67-R'' = [''012345X67'']
   \<and> validate_part_number ''K012345X67-R'' = (Some ''R'', Some ''R'')"
  by code_simp

text \<open>Without a match nothing is returned, whatever letters the part number holds.\<close>

lemma validate_part_number_no_match:
  "findall pn = [] \<Longrightarrow> snd (validate_part_number pn) = None"
  by (simp add: validate_part_number_def Let_def)

lemma validate_part_number_no_match_example:
  "validate_part_number ''K012345R'' = (Some ''R'', None)"
  by code_simp


section \<open>Device-code alternatives\<close>

lemma split_scan_no_space:
  "CHR '' '' \<notin> set x \<Longrightarrow>
   split_scan '' or '' 0 acc (x @ rest) = split_scan '' or '' 0 (rev x @ acc) rest"
  by (induction x arbitrary: acc) auto

lemma split_scan_separator:
  "split_scan '' or '' 0 acc ('' or '' @ rest) = rev acc # split_scan '' or '' 0 [] rest"
  by (simp add: eval_nat_numeral)

lemma split_scan_join:
  "xs \<noteq> [] \<Longrightarrow> \<forall>x \<in> set xs. CHR '' '' \<notin> set x \<Longrightarrow>
   split_scan '' or '' 0 acc (str_join '' or '' xs) = (rev acc @ hd xs) # tl xs"
proof (induction "'' or ''" xs arbitrary: acc rule: str_join.induct)
  case 1
  then show ?case by simp
next
  case (2 x)
  then show ?case
    using split_scan_no_space [of x acc "[]"] by simp
next
  case (3 x y ys)
  have "split_scan '' or '' 0 acc (str_join '' or '' (x # y # ys))
        = split_scan '' or '' 0 (rev x @ acc) ('' or '' @ str_join '' or '' (y # ys))"
    using 3(3) split_scan_no_space [of x acc] by simp
  also have "\<dots> = (rev acc @ x) # split_scan '' or '' 0 [] (str_join '' or '' (y # ys))"
    using split_scan_separator [of "rev x @ acc"] by simp
  also have "\<dots> = (rev acc @ x) # y # ys"
    using 3 by simp
  finally show ?case by simp
qed

text \<open>Splitting the joined alternatives gives them back when none holds a space.\<close>

lemma str_split_join:
  "xs \<noteq> [] \<Longrightarrow> \<forall>x \<in> set xs. CHR '' '' \<notin> set x \<Longrightarrow>
   str_split (str_join '' or '' xs) '' or '' = xs"
  using split_scan_join [of xs "[]"] by (simp add: str_split_def)

lemma format_device_code_join:
  "alts \<noteq> [] \<Longrightarrow> format_device_code (Lst alts) = Str (str_join '' or '' alts)"
proof (cases alts)
  case Nil
  assume "alts \<noteq> []"
  with Nil show ?thesis by simp
next
  case (Cons a rest)
  then show ?thesis by (cases rest) simp_all
qed

text \<open>
  The alternatives of the device code are joined with \<open>" or "\<close> for display and the
  displayed text is split again for the comparison. For a non-empty list of alternatives
  none of which holds a space, the row is styled as conformant exactly when the observed
  value is one of the alternatives.
\<close>

lemma device_code_space_free:
  assumes "alts \<noteq> []" and "\<forall>a \<in> set alts. CHR '' '' \<notin> set a"
  shows "styled_row \<lparr>Parameters = ''Device Code'', Expected_Value = Lst alts,
                      Actual_Value = observed, Should_be_Equal = True\<rparr>
         = Inr (if observed \<in> set alts then Black_normal else Red_bold)"
  using assms
  by (simp add: styled_row_def format_row_def highlight_row_def modify_expected_value_def
                format_device_code_join str_split_join)

text \<open>The lists of alternatives of the table.\<close>

lemma device_codes_lists:
  assumes "map_of device_codes key = Some (Lst alts)"
  shows "alts = [''21024'', ''50017''] \<or> alts = [''4963'', ''50013'', ''50016'']
         \<or> alts = [''50007'', ''50022'']"
proof -
  have "(key, Lst alts) \<in> set device_codes"
    using assms by (rule map_of_SomeD)
  then show ?thesis
    unfolding device_codes_def by auto
qed

lemma device_codes_singles:
  assumes "map_of device_codes key = Some (Str code)"
  shows "code = ''50024''"
proof -
  have "(key, Str code) \<in> set device_codes"
    using assms by (rule map_of_SomeD)
  then show ?thesis
    unfolding device_codes_def by auto
qed

text \<open>
  C9. For every type and letter identifier whose device code in the table is a list of
  alternatives, the row built from the value read from the page is styled as conformant
  exactly when that value is one of the alternatives.
\<close>

theorem device_code_alternatives:
  assumes "device_code_row type_value letter observed = Some row"
    and "Expected_Value row = Lst alts"
  shows "styled_row row = Inr (if observed \<in> set alts then Black_normal else Red_bold)"
proof -
  obtain expected_value
    where entry: "map_of device_codes (type_value, letter) = Some expected_value"
      and row: "row = \<lparr>Parameters = ''Device Code'', Expected_Value = expected_value,
                        Actual_Value = observed, Should_be_Equal = True\<rparr>"
    using assms(1) by (auto simp add: device_code_row_def)
  have expected: "expected_value = Lst alts"
    using assms(2) row by simp
  have "alts = [''21024'', ''50017''] \<or> alts = [''4963'', ''50013'', ''50016'']
        \<or> alts = [''50007'', ''50022'']"
    using entry expected device_codes_lists [of "(type_value, letter)" alts] by simp
  then have "alts \<noteq> [] \<and> (\<forall>a \<in> set alts. CHR '' '' \<notin> set a)"
    by auto
  then show ?thesis
    using device_code_space_free [of alts observed] row expected by simp
qed

text \<open>
  The scenario of the list \<open>21024\<close>, \<open>50017\<close>, the entry of type \<open>FLC-20\<close> and letter
  \<open>R\<close>: an observed \<open>50017\<close> is conformant, an observed \<open>99999\<close> is a deviation.
\<close>

theorem device_code_alternatives_witness:
  "map_of device_codes (''FLC-20'', ''R'') = Some (Lst [''21024'', ''50017''])
   \<and> styled_row \<lparr>Parameters = ''Device Code'', Expected_Value = Lst [''21024'', ''50017''],
                  Actual_Value = ''50017'', Should_be_Equal = True\<rparr> = Inr Black_normal
   \<and> styled_row \<lparr>Parameters = ''Device Code'', Expected_Value = Lst [''21024'', ''50017''],
                  Actual_Value = ''99999'', Should_be_Equal = True\<rparr> = Inr Red_bold"
proof -
  have entry: "map_of device_codes (''FLC-20'', ''R'') = Some (Lst [''21024'', ''50017''])"
    by (simp add: device_codes_def)
  have 1: "device_code_row ''FLC-20'' ''R'' ''50017''
           = Some \<lparr>Parameters = ''Device Code'', Expected_Value = Lst [''21024'', ''50017''],
                    Actual_Value = ''50017'', Should_be_Equal = True\<rparr>"
    by (simp add: device_code_row_def entry)
  have 2: "device_code_row ''FLC-20'' ''R'' ''99999''
           = Some \<lparr>Parameters = ''Device Code'', Expected_Value = Lst [''21024'', ''50017''],
                    Actual_Value = ''99999'', Should_be_Equal = True\<rparr>"
    by (simp add: device_code_row_def entry)
  show ?thesis
    using entry device_code_alternatives [OF 1, of "[''21024'', ''50017'']"]
      device_code_alternatives [OF 2, of "[''21024'', ''50017'']"]
    by simp
qed

text \<open>
  The entries of the table that are a single code, not a list: the row is conformant
  exactly when the observed value is that code.
\<close>

lemma device_code_single:
  assumes "device_code_row type_value letter observed = Some row"
    and "Expected_Value row = Str code"
  shows "styled_row row = Inr (if observed = code then Black_normal else Red_bold)"
proof -
  obtain expected_value
    where entry: "map_of device_codes (type_value, letter) = Some expected_value"
      and row: "row = \<lparr>Parameters = ''Device Code'', Expected_Value = expected_value,
                        Actual_Value = observed, Should_be_Equal = True\<rparr>"
    using assms(1) by (auto simp add: device_code_row_def)
  have expected: "expected_value = Str code"
    using assms(2) row by simp
  have code: "code = ''50024''"
    using entry expected device_codes_singles [of "(type_value, letter)" code] by simp
  have "str_split ''50024'' '' or '' = [''50024'']"
    by code_simp
  then show ?thesis
    using row expected code
    by (simp add: styled_row_def format_row_def highlight_row_def modify_expected_value_def)
qed

text \<open>
  Outside the table the hypothesis on spaces matters: with alternatives that hold the
  separator, which the table does not have, the displayed text splits differently.
\<close>

lemma device_code_separator_outside_table:
  "''a'' \<notin> set [''a or b'', ''c'']
   \<and> styled_row \<lparr>Parameters = ''Device Code'', Expected_Value = Lst [''a or b'', ''c''],
                  Actual_Value = ''a'', Should_be_Equal = True\<rparr> = Inr Black_normal"
  by code_simp


section \<open>Classification by title\<close>

text \<open>
  C5 as stated fails on a title with both keywords: \<open>Radar Camera\<close> is classified, as
  a radar.
\<close>

theorem classification_both_keywords_counterexample:
  "str_in ''radar'' (lower ''Radar Camera'') \<and> str_in ''camera'' (lower ''Radar Camera'')
   \<and> initialize_main_params False ''K012345X67'' ''Radar Camera'' (Some ''X'') False False FLR_25
     = Inr \<lparr>part_number = ''K012345X67'', title_id_value = ''Radar Camera'',
             letter_identifier = Some ''X'', chbx_bracket = False, chbx_resistor = False,
             type_dropdown = FLR_25, radar_in_title = True, camera_in_title = True,
             bracket_in_title = False, cover_in_title = False, element_name = ''Radar'',
             is_am_bracket = False\<rparr>"
  by code_simp

text \<open>
  C5, as the code has it. For a family that is neither a bracket nor the cover family,
  the classification succeeds exactly when the lower-cased title contains \<open>radar\<close> or
  \<open>camera\<close> (one of them or both); the element is a radar when \<open>radar\<close> occurs and a
  camera otherwise; with neither keyword the call raises and gives no object.
\<close>

theorem classification_radar_or_camera:
  assumes "dropdown \<notin> {FLR_25_BRACKET, FLC_25_BRACKET, FLC_25_COVER}"
  shows "(\<exists>self. initialize_main_params am pn title letter bracket resistor dropdown = Inr self)
           = (str_in ''radar'' (lower title) \<or> str_in ''camera'' (lower title))
         \<and> (\<forall>self. initialize_main_params am pn title letter bracket resistor dropdown = Inr self
               \<longrightarrow> element_name self
                     = (if str_in ''radar'' (lower title) then ''Radar'' else ''Camera''))
         \<and> (initialize_main_params am pn title letter bracket resistor dropdown = Inl ValueError)
           = (\<not> str_in ''radar'' (lower title) \<and> \<not> str_in ''camera'' (lower title))"
  using assms by (cases dropdown) (auto simp: initialize_main_params_def Let_def)

theorem classification_radar_or_camera_witness:
  "initialize_main_params False ''K012345X67'' ''Front Assembly'' (Some ''X'') False False FLR_25
     = Inl ValueError"
proof -
  have "\<not> str_in ''radar'' (lower ''Front Assembly'')
        \<and> \<not> str_in ''camera'' (lower ''Front Assembly'')"
    by code_simp
  then show ?thesis
    using classification_radar_or_camera [of FLR_25 False "''K012345X67''" "''Front Assembly''"
                                             "Some ''X''" False False]
    by simp
qed


section \<open>Initialised objects\<close>

lemma radar_x_part_initialized:
  "initialize_main_params False ''K012345X67'' ''Radar'' (Some ''X'') False False FLR_25
     = Inr radar_x_part"
  by code_simp

lemma camera_r_part_initialized:
  "initialize_main_params False ''K012345R67'' ''Camera'' (Some ''R'') False False FLC_25
     = Inr camera_r_part"
  by code_simp

lemma initialize_radar_in_title:
  "initialize_main_params am pn title letter bracket resistor dropdown = Inr self \<Longrightarrow>
   element_name self = ''Radar'' \<Longrightarrow> radar_in_title self"
  by (auto simp: initialize_main_params_def Let_def split: if_splits)

lemma initialize_camera_in_title:
  "initialize_main_params am pn title letter bracket resistor dropdown = Inr self \<Longrightarrow>
   element_name self = ''Camera'' \<Longrightarrow> camera_in_title self"
  by (auto simp: initialize_main_params_def Let_def split: if_splits)


section \<open>Unparseable quantities\<close>

text \<open>The first row whose quantity does not convert ends the inner loop with its error.\<close>

lemma rows_of_element_first_error:
  "list_all (\<lambda>(t, q, d, i). \<not> isl (conv q)) before \<Longrightarrow> conv quantity = Inl e \<Longrightarrow>
   rows_of_element conv self element expected
     (before @ (title, quantity, description, ident) # after) = Inl e"
proof (induction before)
  case Nil
  then show ?case by simp
next
  case (Cons row before)
  obtain t q d i where row: "row = (t, q, d, i)" by (cases row) auto
  obtain n where n: "conv q = Inr n"
    using Cons.prems(1) row by (cases "conv q") auto
  have "rows_of_element conv self element expected
          (before @ (title, quantity, description, ident) # after) = Inl e"
    using Cons by simp
  with n show ?case by (simp add: row Let_def)
qed

lemma rows_of_required_first_error:
  "required \<noteq> [] \<Longrightarrow> list_all (\<lambda>(t, q, d, i). \<not> isl (conv q)) before \<Longrightarrow>
   conv quantity = Inl e \<Longrightarrow>
   rows_of_required conv self required
     (before @ (title, quantity, description, ident) # after) = Inl e"
  by (cases required) (simp_all add: rows_of_element_first_error Let_def)

text \<open>Any row whose quantity does not convert leaves the loops without rows.\<close>

lemma rows_of_element_fails:
  "(title, quantity, description, ident) \<in> set titles \<Longrightarrow> isl (conv quantity) \<Longrightarrow>
   isl (rows_of_element conv self element expected titles)"
proof (induction titles)
  case Nil
  then show ?case by simp
next
  case (Cons row rest)
  obtain t q d i where row: "row = (t, q, d, i)" by (cases row) auto
  show ?case
  proof (cases "conv q")
    case (Inl e)
    then show ?thesis by (simp add: row)
  next
    case (Inr n)
    have "isl (rows_of_element conv self element expected rest)"
      using Cons Inr row by auto
    then obtain e where "rows_of_element conv self element expected rest = Inl e"
      by (cases "rows_of_element conv self element expected rest") auto
    with Inr show ?thesis by (simp add: row Let_def)
  qed
qed

lemma unparseable_quantity_no_result:
  assumes "get_required_elements self (element_name self) \<noteq> []"
    and "(title, quantity, description, ident) \<in> set titles"
    and "isl (conv quantity)"
  shows "isl (get_bom_in_content conv self titles)"
proof -
  obtain element elements
    where req: "get_required_elements self (element_name self) = element # elements"
    using assms(1) by (cases "get_required_elements self (element_name self)") auto
  let ?expected = "if element \<in> set [''Nut'', ''Screw''] then 3 else 1"
  have "isl (rows_of_element conv self element ?expected titles)"
    using assms(2,3) by (rule rows_of_element_fails)
  then obtain e where "rows_of_element conv self element ?expected titles = Inl e"
    by (cases "rows_of_element conv self element ?expected titles") auto
  then have "rows_of_required conv self (element # elements) titles = Inl e"
    by (simp add: Let_def)
  then show ?thesis
    by (simp add: get_bom_in_content_def data_rows_def req Let_def)
qed

text \<open>When every quantity converts, the call returns a result.\<close>

lemma rows_of_element_returns:
  "list_all (\<lambda>(t, q, d, i). \<not> isl (conv q)) titles \<Longrightarrow>
   \<exists>rows. rows_of_element conv self element expected titles = Inr rows"
proof (induction titles)
  case Nil
  then show ?case by simp
next
  case (Cons row rest)
  obtain t q d i where row: "row = (t, q, d, i)" by (cases row) auto
  obtain n where n: "conv q = Inr n"
    using Cons.prems row by (cases "conv q") auto
  obtain rows where "rows_of_element conv self element expected rest = Inr rows"
    using Cons by auto
  with n show ?case by (simp add: row Let_def)
qed

lemma rows_of_required_returns:
  "list_all (\<lambda>(t, q, d, i). \<not> isl (conv q)) titles \<Longrightarrow>
   \<exists>rows. rows_of_required conv self required titles = Inr rows"
proof (induction required)
  case Nil
  then show ?case by simp
next
  case (Cons element elements)
  obtain rows where "rows_of_element conv self element
                       (if element \<in> set [''Nut'', ''Screw''] then 3 else 1) titles = Inr rows"
    using rows_of_element_returns [OF Cons.prems] by blast
  moreover obtain others where "rows_of_required conv self elements titles = Inr others"
    using Cons by blast
  ultimately show ?case by (simp add: Let_def)
qed

lemma rows_of_other_can_returns:
  "list_all (\<lambda>(t, q, d, i). \<not> isl (conv q)) titles \<Longrightarrow>
   \<exists>rows. rows_of_other_can conv required titles = Inr rows"
proof (induction titles)
  case Nil
  then show ?case by simp
next
  case (Cons row rest)
  obtain t q d i where row: "row = (t, q, d, i)" by (cases row) auto
  obtain n where n: "conv q = Inr n"
    using Cons.prems row by (cases "conv q") auto
  obtain rows where "rows_of_other_can conv required rest = Inr rows"
    using Cons by auto
  with n show ?case by (simp add: row)
qed

lemma first_screw_row_returns:
  "list_all (\<lambda>(t, q, d, i). \<not> isl (conv q)) titles \<Longrightarrow>
   \<exists>rows. first_screw_row conv titles = Inr rows"
proof (induction titles)
  case Nil
  then show ?case by simp
next
  case (Cons row rest)
  obtain t q d i where row: "row = (t, q, d, i)" by (cases row) auto
  obtain n where n: "conv q = Inr n"
    using Cons.prems row by (cases "conv q") auto
  obtain rows where "first_screw_row conv rest = Inr rows"
    using Cons by auto
  with n show ?case by (simp add: row)
qed

lemma get_bom_in_content_returns:
  assumes "list_all (\<lambda>(t, q, d, i). \<not> isl (conv q)) titles"
  shows "\<exists>r. get_bom_in_content conv self titles = Inr r"
proof -
  let ?req = "get_required_elements self (element_name self)"
  obtain r1 where 1: "rows_of_required conv self ?req titles = Inr r1"
    using rows_of_required_returns [OF assms] by blast
  obtain r2 where 2: "rows_of_other_can conv ?req titles = Inr r2"
    using rows_of_other_can_returns [OF assms] by blast
  obtain r3 where 3: "first_screw_row conv titles = Inr r3"
    using first_screw_row_returns [OF assms] by blast
  show ?thesis
    using 1 2 3 by (simp add: get_bom_in_content_def data_rows_def Let_def)
qed

text \<open>
  C2, as the code has it. The quantity text of every row is converted with
  \<open>int(float(quantity))\<close> once for each required element, outside any handler. When at
  least one element is required and the quantity of some row does not convert, the call
  raises the exception of the conversion of the first such row, whatever its class, and
  returns no result: no row is given the quantity zero. When every quantity converts,
  the call returns a result.
\<close>

theorem unparseable_quantity_raises:
  "(get_required_elements self (element_name self) \<noteq> []
      \<and> list_all (\<lambda>(t, q, d, i). \<not> isl (conv q)) before
      \<and> conv quantity = Inl e
    \<longrightarrow> get_bom_in_content conv self (before @ (title, quantity, description, ident) # after)
        = Inl e)
   \<and> (list_all (\<lambda>(t, q, d, i). \<not> isl (conv q)) titles
    \<longrightarrow> (\<exists>r. get_bom_in_content conv self titles = Inr r))"
proof (intro conjI impI)
  assume a: "get_required_elements self (element_name self) \<noteq> []
      \<and> list_all (\<lambda>(t, q, d, i). \<not> isl (conv q)) before
      \<and> conv quantity = Inl e"
  have "rows_of_required conv self (get_required_elements self (element_name self))
          (before @ (title, quantity, description, ident) # after) = Inl e"
    using a by (intro rows_of_required_first_error) simp_all
  then show "get_bom_in_content conv self (before @ (title, quantity, description, ident) # after)
             = Inl e"
    by (simp add: get_bom_in_content_def data_rows_def Let_def)
next
  assume "list_all (\<lambda>(t, q, d, i). \<not> isl (conv q)) titles"
  then show "\<exists>r. get_bom_in_content conv self titles = Inr r"
    by (rule get_bom_in_content_returns)
qed

lemma quantity_readings:
  "int_of_float_text ''1'' = Inr 1" "int_of_float_text ''2'' = Inr 2"
  "int_of_float_text ''n/a'' = Inl ValueError" "int_of_float_text ''abc'' = Inl ValueError"
  "int_of_float_text ''inf'' = Inl OverflowError"
  "int_of_float_text ''-Infinity'' = Inl OverflowError"
  "int_of_float_text ''nan'' = Inl ValueError" "int_of_float_text '' 2.7 '' = Inr 2"
  by code_simp+

theorem unparseable_quantity_raises_witness:
  "get_bom_in_content int_of_float_text radar_x_part
     [(''Dataset'', ''1'', ''Data set'', ''K000001''), (''Software'', ''n/a'', [], ''K000002'')]
   = Inl ValueError
   \<and> get_bom_in_content int_of_float_text radar_x_part
       [(''Dataset'', ''1'', ''Data set'', ''K000001''), (''Software'', ''inf'', [], ''K000002'')]
     = Inl OverflowError
   \<and> \<not> isl (get_bom_in_content int_of_float_text radar_x_part complete_rows)"
proof -
  have req: "get_required_elements radar_x_part (element_name radar_x_part) \<noteq> []"
    by (simp add: get_required_elements_def radar_x_part_def)
  have first: "list_all (\<lambda>(t, q, d, i). \<not> isl (int_of_float_text q))
                 [(''Dataset'', ''1'', ''Data set'', ''K000001'')]"
    by (simp add: quantity_readings)
  have all: "list_all (\<lambda>(t, q, d, i). \<not> isl (int_of_float_text q)) complete_rows"
    by (simp add: complete_rows_def quantity_readings)
  have 1: "get_bom_in_content int_of_float_text radar_x_part
             ([(''Dataset'', ''1'', ''Data set'', ''K000001'')]
              @ (''Software'', ''n/a'', [], ''K000002'') # []) = Inl ValueError"
    using req first quantity_readings(3)
      unparseable_quantity_raises [of radar_x_part int_of_float_text
        "[(''Dataset'', ''1'', ''Data set'', ''K000001'')]" "''n/a''" ValueError
        "''Software''" "[]" "''K000002''" "[]"]
    by blast
  have 2: "get_bom_in_content int_of_float_text radar_x_part
             ([(''Dataset'', ''1'', ''Data set'', ''K000001'')]
              @ (''Software'', ''inf'', [], ''K000002'') # []) = Inl OverflowError"
    using req first quantity_readings(5)
      unparseable_quantity_raises [of radar_x_part int_of_float_text
        "[(''Dataset'', ''1'', ''Data set'', ''K000001'')]" "''inf''" OverflowError
        "''Software''" "[]" "''K000002''" "[]"]
    by blast
  have 3: "\<exists>r. get_bom_in_content int_of_float_text radar_x_part complete_rows = Inr r"
    using all
      unparseable_quantity_raises [of radar_x_part int_of_float_text "[]" "[]" ValueError
        "[]" "[]" "[]" "[]" complete_rows]
    by blast
  show ?thesis
    using 1 2 3 by auto
qed

text \<open>
  C2 as stated fails: a run whose only row has the quantity \<open>abc\<close> ends with the error
  of the conversion instead of a result with quantity zero.
\<close>

theorem unparseable_quantity_counterexample:
  "int_of_float_text ''abc'' = Inl ValueError
   \<and> structure_run int_of_float_text ''K012345X67'' ''Radar'' (Some ''X'') False False FLR_25
        [(''Dataset'', ''abc'', ''Data set'', ''K000001'')] = Inl ValueError"
  by code_simp

text \<open>An infinite quantity ends the run with the overflow error of the conversion.\<close>

lemma infinite_quantity_overflow:
  "structure_run int_of_float_text ''K012345X67'' ''Radar'' (Some ''X'') False False FLR_25
     [(''Dataset'', ''inf'', ''Data set'', ''K000001'')] = Inl OverflowError"
  by code_simp

text \<open>A list of missing elements in the result is the list the corrections left.\<close>

lemma returned_missing_list:
  "get_bom_in_content conv self titles = Inr r \<Longrightarrow> msg r = Missing_elements m \<Longrightarrow>
   m = missing_elements_of self titles"
  by (auto simp: get_bom_in_content_def Let_def split: sum.splits if_splits)


section \<open>Quantities and the verdict\<close>

text \<open>
  C4, as the code has it. A row of the result is styled as a deviation exactly when
  its quantity differs from the expected one. The message is the list of missing elements
  exactly when that list is not empty, and the success message exactly when the list is
  empty and the letter identifier is one of \<open>R\<close>, \<open>X\<close>, \<open>SC\<close>, \<open>B\<close>, \<open>Cover\<close>:
  the quantities have no part in it.
\<close>

theorem quantity_law:
  assumes "get_bom_in_content conv self titles = Inr r"
  shows "(\<forall>row \<in> set (df r).
            (highlight_mismatched_values row = Red_bold) = (Quantity row \<noteq> Expected_value row))
         \<and> (msg r = Missing_elements (missing_elements_of self titles))
             = (missing_elements_of self titles \<noteq> [])
         \<and> (msg r = Successful (letter_identifier self = Some ''SC'')
                       (rename_required (get_required_elements self (element_name self))))
             = (missing_elements_of self titles = []
                \<and> letter_identifier self
                     \<in> {Some ''R'', Some ''X'', Some ''SC'', Some ''B'', Some ''Cover''})"
proof -
  have "\<forall>row \<in> set (df r).
            (highlight_mismatched_values row = Red_bold) = (Quantity row \<noteq> Expected_value row)"
    by (simp add: highlight_mismatched_values_def)
  moreover have "(msg r = Missing_elements (missing_elements_of self titles))
             = (missing_elements_of self titles \<noteq> [])"
    using assms
    by (auto simp: get_bom_in_content_def Let_def split: sum.splits if_splits)
  moreover have "(msg r = Successful (letter_identifier self = Some ''SC'')
                       (rename_required (get_required_elements self (element_name self))))
             = (missing_elements_of self titles = []
                \<and> letter_identifier self
                     \<in> {Some ''R'', Some ''X'', Some ''SC'', Some ''B'', Some ''Cover''})"
    using assms
    by (auto simp: get_bom_in_content_def Let_def split: sum.splits if_splits)
  ultimately show ?thesis by blast
qed

lemma complete_rows_result:
  "get_bom_in_content int_of_float_text radar_x_part complete_rows
   = Inr \<lparr>msg = Successful False [''Dataset'', ''Software'', ''Boot Software'',
                                    ''Radar wo CAN termination (K188333H002)''],
           df = [\<lparr>ID = ''K000001'', Title = ''Dataset'', Description = ''Data set'',
                   Quantity = 1, Expected_value = 1\<rparr>,
                 \<lparr>ID = ''K000002'', Title = ''Software'', Description = ''VER FU123456'',
                   Quantity = 2, Expected_value = 1\<rparr>,
                 \<lparr>ID = ''K000003'', Title = ''Software'', Description = ''Boot Software'',
                   Quantity = 1, Expected_value = 1\<rparr>,
                 \<lparr>ID = ''K188333H002'', Title = ''Radar'', Description = ''wo CAN termination'',
                   Quantity = 1, Expected_value = 1\<rparr>]\<rparr>"
  by code_simp

theorem quantity_law_witness:
  "missing_elements_of radar_x_part complete_rows = []
   \<and> highlight_mismatched_values
        \<lparr>ID = ''K000002'', Title = ''Software'', Description = ''VER FU123456'',
         Quantity = 2, Expected_value = 1\<rparr> = Red_bold"
proof -
  have req: "rename_required (get_required_elements radar_x_part (element_name radar_x_part))
             = [''Dataset'', ''Software'', ''Boot Software'',
                ''Radar wo CAN termination (K188333H002)'']"
    by code_simp
  have letter: "letter_identifier radar_x_part = Some ''X''"
    by (simp add: radar_x_part_def)
  show ?thesis
    using quantity_law [OF complete_rows_result] req letter by simp
qed

text \<open>
  C4 as stated fails: with no missing element and a software row of quantity 2 against
  the expected 1, the run reports success, and the row is styled as a deviation.
\<close>

theorem mismatch_with_success_counterexample:
  "structure_run int_of_float_text ''K012345X67'' ''Radar'' (Some ''X'') False False FLR_25
     [(''Dataset'', ''1'', ''Data set'', ''K000001''),
      (''Software'', ''2'', ''VER FU123456'', ''K000002''),
      (''Software'', ''1'', ''Boot Software'', ''K000003''),
      (''Radar'', ''1'', ''wo CAN termination'', ''K188333H002'')]
   = Inr \<lparr>msg = Successful False [''Dataset'', ''Software'', ''Boot Software'',
                                    ''Radar wo CAN termination (K188333H002)''],
           df = [\<lparr>ID = ''K000001'', Title = ''Dataset'', Description = ''Data set'',
                   Quantity = 1, Expected_value = 1\<rparr>,
                 \<lparr>ID = ''K000002'', Title = ''Software'', Description = ''VER FU123456'',
                   Quantity = 2, Expected_value = 1\<rparr>,
                 \<lparr>ID = ''K000003'', Title = ''Software'', Description = ''Boot Software'',
                   Quantity = 1, Expected_value = 1\<rparr>,
                 \<lparr>ID = ''K188333H002'', Title = ''Radar'', Description = ''wo CAN termination'',
                   Quantity = 1, Expected_value = 1\<rparr>]\<rparr>
   \<and> highlight_mismatched_values
        \<lparr>ID = ''K000002'', Title = ''Software'', Description = ''VER FU123456'',
         Quantity = 2, Expected_value = 1\<rparr> = Red_bold"
  by code_simp


section \<open>The missing list\<close>

text \<open>
  C3. No required name should occur twice in the missing list. For a radar whose rows
  hold no boot software, \<open>Boot Software\<close> is missing after the first pass and is
  appended again by the boot-software step, which does not look whether the name is
  already there (the software-version step beside it does): the list names it twice.
\<close>

theorem boot_software_reported_twice:
  "structure_run int_of_float_text ''K012345X67'' ''Radar'' (Some ''X'') False False FLR_25
     [(''Dataset'', ''1'', ''Data set'', ''K000001''),
      (''Software'', ''1'', ''VER FU123456'', ''K000002''),
      (''Radar'', ''1'', ''wo CAN termination'', ''K188333H002'')]
   = Inr \<lparr>msg = Missing_elements [''Boot Software'', ''Boot Software''],
           df = [\<lparr>ID = ''K000001'', Title = ''Dataset'', Description = ''Data set'',
                   Quantity = 1, Expected_value = 1\<rparr>,
                 \<lparr>ID = ''K000002'', Title = ''Software'', Description = ''VER FU123456'',
                   Quantity = 1, Expected_value = 1\<rparr>,
                 \<lparr>ID = ''K188333H002'', Title = ''Radar'', Description = ''wo CAN termination'',
                   Quantity = 1, Expected_value = 1\<rparr>]\<rparr>"
  by code_simp

text \<open>How often a name occurs in the missing list, step by step.\<close>

lemma startswith_map: "startswith s p \<Longrightarrow> startswith (map f s) (map f p)"
  by (induction s p rule: startswith.induct) auto

lemma str_in_map: "str_in sub s \<Longrightarrow> str_in (map f sub) (map f s)"
proof (induction s)
  case Nil
  then show ?case by simp
next
  case (Cons c cs)
  then show ?case
    using startswith_map [of "c # cs" sub f] by auto
qed

lemma lower_Software: "lower ''Software'' = ''software''"
  by code_simp

lemma str_in_software: "str_in ''Software'' t \<Longrightarrow> str_in ''software'' (lower t)"
  using str_in_map [of "''Software''" t lower_char] lower_Software
  by (simp add: lower_def)

lemma length_filter_mono:
  "(\<And>x. x \<in> set xs \<Longrightarrow> P x \<Longrightarrow> Q x) \<Longrightarrow> length (filter P xs) \<le> length (filter Q xs)"
  by (induction xs) auto

lemma count_list_remove1_le: "count_list (remove1 y m) x \<le> count_list m x"
  by (induction m) auto

lemma count_list_remove1_self:
  "count_list m x \<le> 1 \<Longrightarrow> count_list (remove1 x m) x = 0"
  by (induction m) (auto split: if_splits)

lemma count_list_replace_first_le:
  "x \<noteq> b \<Longrightarrow> count_list (replace_first a b m) x \<le> count_list m x"
  by (induction m) auto

lemma count_list_filter_le: "count_list (filter P m) x \<le> count_list m x"
  by (induction m) auto

lemma count_first_pass: "count_list (first_pass required titles) x \<le> count_list required x"
  by (simp add: first_pass_def count_list_filter_le)

lemma count_dataset_inference:
  "count_list (dataset_inference titles m) x \<le> count_list m x"
  by (simp add: dataset_inference_def Let_def count_list_remove1_le)

lemma count_boot_software_check:
  "x \<noteq> ''Boot Software'' \<Longrightarrow> count_list (boot_software_check k titles m) x \<le> count_list m x"
  by (simp add: boot_software_check_def Let_def count_list_remove1_le)

lemma count_software_version_check:
  "x \<noteq> ''Software'' \<Longrightarrow> count_list (software_version_check lit n titles m) x \<le> count_list m x"
  by (simp add: software_version_check_def Let_def)

lemma count_can_termination_check:
  "x \<noteq> qualified \<Longrightarrow>
   count_list (can_termination_check generic ref qualified titles m) x \<le> count_list m x"
  by (simp add: can_termination_check_def Let_def count_list_remove1_le)

lemma remove1_last_occurrence:
  "count_list m x \<le> 1 \<Longrightarrow> x \<notin> set (remove1 x m)"
  by (induction m) (auto split: if_splits simp: count_list_0_iff)

lemma can_termination_check_removes:
  "generic \<noteq> qualified \<Longrightarrow> count_list m generic \<le> 1 \<Longrightarrow>
   generic \<notin> set (can_termination_check generic ref qualified titles m)"
  by (simp add: can_termination_check_def Let_def remove1_last_occurrence)

lemma count_radar_corrections:
  "x \<notin> {''Boot Software'', ''Software'', ''Radar with CAN termination (K218450H002)'',
         ''Radar without CAN termination (K188333H002)''} \<Longrightarrow>
   count_list (radar_corrections self titles m) x \<le> count_list m x"
proof -
  assume x: "x \<notin> {''Boot Software'', ''Software'', ''Radar with CAN termination (K218450H002)'',
         ''Radar without CAN termination (K188333H002)''}"
  let ?m1 = "dataset_inference titles m"
  let ?m2 = "boot_software_check ''boot software'' titles ?m1"
  let ?m3 = "software_version_check ''VER FU'' 6 titles ?m2"
  have "count_list ?m3 x \<le> count_list ?m2 x"
    using x by (intro count_software_version_check) simp
  also have "\<dots> \<le> count_list ?m1 x"
    using x by (intro count_boot_software_check) simp
  also have "\<dots> \<le> count_list m x"
    by (rule count_dataset_inference)
  finally have 3: "count_list ?m3 x \<le> count_list m x" .
  have "count_list (can_termination_check g r q titles ?m3) x \<le> count_list m x"
    if "x \<noteq> q" for g r q
    using count_can_termination_check [OF that, of g r titles ?m3] 3 by simp
  then show ?thesis
    using x by (simp add: radar_corrections_def Let_def)
qed

lemma count_camera_corrections:
  "x \<notin> {''Boot Software'', ''Software'', ''Camera (K188332H000)''} \<Longrightarrow>
   count_list (camera_corrections self titles m) x \<le> count_list m x"
proof -
  assume x: "x \<notin> {''Boot Software'', ''Software'', ''Camera (K188332H000)''}"
  have step: "count_list (software_version_check ''NA'' 6 titles
                 (boot_software_check ''boot'' titles (dataset_inference titles m1))) x
              \<le> count_list m1 x" for m1
  proof -
    let ?m2 = "dataset_inference titles m1"
    let ?m3 = "boot_software_check ''boot'' titles ?m2"
    have "count_list (software_version_check ''NA'' 6 titles ?m3) x \<le> count_list ?m3 x"
      using x by (intro count_software_version_check) simp
    also have "\<dots> \<le> count_list ?m2 x"
      using x by (intro count_boot_software_check) simp
    also have "\<dots> \<le> count_list m1 x"
      by (rule count_dataset_inference)
    finally show ?thesis .
  qed
  have r: "count_list (replace_first ''Camera'' ''Camera (K188332H000)'' m) x \<le> count_list m x"
    using x by (intro count_list_replace_first_le) simp
  show ?thesis
    using x step [of m] step [of "replace_first ''Camera'' ''Camera (K188332H000)'' m"]
      step [of "m @ [''Camera (K188332H000)'']"] r
    by (auto simp: camera_corrections_def Let_def)
qed

lemma count_bracket_corrections:
  "x \<noteq> ''Bracket'' \<Longrightarrow> count_list (bracket_corrections self titles m) x \<le> count_list m x"
  by (simp add: bracket_corrections_def Let_def)

lemma distinct_required_elements: "distinct (get_required_elements self name)"
  by (simp add: get_required_elements_def Let_def)

lemma distinct_count_le_1: "distinct xs \<Longrightarrow> count_list xs x \<le> 1"
  by (induction xs) auto

lemma count_required_elements: "count_list (get_required_elements self name) x \<le> 1"
  using distinct_required_elements [of self name] by (rule distinct_count_le_1)

lemma required_with_can:
  "''with CAN termination'' \<in> set (get_required_elements self name) \<Longrightarrow> chbx_resistor self"
  by (auto simp: get_required_elements_def Let_def split: if_splits)

lemma required_wo_can:
  "''wo CAN termination'' \<in> set (get_required_elements self name) \<Longrightarrow> \<not> chbx_resistor self"
  by (auto simp: get_required_elements_def Let_def split: if_splits)

lemma not_in_set_count_le:
  "count_list m' x \<le> count_list m x \<Longrightarrow> x \<notin> set m \<Longrightarrow> x \<notin> set m'"
  by (simp add: count_list_0_iff [symmetric])

lemma radar_corrections_generic:
  assumes "radar_in_title self"
    and "letter_identifier self \<in> {Some ''R'', Some ''SC'', Some ''X''}"
    and "count_list m ''with CAN termination'' \<le> 1"
    and "count_list m ''wo CAN termination'' \<le> 1"
    and "''with CAN termination'' \<in> set m \<Longrightarrow> chbx_resistor self"
    and "''wo CAN termination'' \<in> set m \<Longrightarrow> \<not> chbx_resistor self"
  shows "''with CAN termination'' \<notin> set (radar_corrections self titles m)
         \<and> ''wo CAN termination'' \<notin> set (radar_corrections self titles m)"
proof -
  let ?m3 = "software_version_check ''VER FU'' 6 titles
               (boot_software_check ''boot software'' titles (dataset_inference titles m))"
  have le: "count_list ?m3 x \<le> count_list m x"
    if "x \<noteq> ''Boot Software''" "x \<noteq> ''Software''" for x
  proof -
    have "count_list ?m3 x
          \<le> count_list (boot_software_check ''boot software'' titles (dataset_inference titles m)) x"
      using that by (intro count_software_version_check) simp
    also have "\<dots> \<le> count_list (dataset_inference titles m) x"
      using that by (intro count_boot_software_check) simp
    also have "\<dots> \<le> count_list m x"
      by (rule count_dataset_inference)
    finally show ?thesis .
  qed
  have w: "count_list ?m3 ''with CAN termination'' \<le> count_list m ''with CAN termination''"
    by (rule le) simp_all
  have o: "count_list ?m3 ''wo CAN termination'' \<le> count_list m ''wo CAN termination''"
    by (rule le) simp_all
  show ?thesis
  proof (cases "chbx_resistor self")
    case True
    then have "''wo CAN termination'' \<notin> set m" using assms(6) by blast
    then have "''wo CAN termination'' \<notin> set ?m3" using o by (rule not_in_set_count_le [rotated])
    then have "''wo CAN termination''
                 \<notin> set (can_termination_check ''with CAN termination'' ''K218450H002''
                           ''Radar with CAN termination (K218450H002)'' titles ?m3)"
      by (intro not_in_set_count_le [OF count_can_termination_check]) simp_all
    moreover have "''with CAN termination''
                 \<notin> set (can_termination_check ''with CAN termination'' ''K218450H002''
                           ''Radar with CAN termination (K218450H002)'' titles ?m3)"
      using w assms(3) by (intro can_termination_check_removes) simp_all
    ultimately show ?thesis
      using True assms(1,2) by (simp add: radar_corrections_def Let_def)
  next
    case False
    then have "''with CAN termination'' \<notin> set m" using assms(5) by blast
    then have "''with CAN termination'' \<notin> set ?m3" using w by (rule not_in_set_count_le [rotated])
    then have "''with CAN termination''
                 \<notin> set (can_termination_check ''wo CAN termination'' ''K188333H002''
                           ''Radar without CAN termination (K188333H002)'' titles ?m3)"
      by (intro not_in_set_count_le [OF count_can_termination_check]) simp_all
    moreover have "''wo CAN termination''
                 \<notin> set (can_termination_check ''wo CAN termination'' ''K188333H002''
                           ''Radar without CAN termination (K188333H002)'' titles ?m3)"
      using o assms(4) by (intro can_termination_check_removes) simp_all
    ultimately show ?thesis
      using False assms(1,2) by (simp add: radar_corrections_def Let_def)
  qed
qed

lemma later_corrections_keep_out:
  assumes "x \<notin> {''Boot Software'', ''Software'', ''Camera (K188332H000)'', ''Bracket''}"
    and "x \<notin> set m"
  shows "x \<notin> set (bracket_corrections self titles (camera_corrections self titles m))"
proof -
  have "x \<notin> set (camera_corrections self titles m)"
    using assms by (intro not_in_set_count_le [OF count_camera_corrections]) simp_all
  then show ?thesis
    using assms(1) by (intro not_in_set_count_le [OF count_bracket_corrections]) simp_all
qed

text \<open>
  C10. For a radar with letter identifier \<open>R\<close>, \<open>SC\<close> or \<open>X\<close>, neither generic
  name of the CAN termination is in the missing list: the one that is required is taken
  out by the CAN-termination step whether or not the reference part was found, and the
  other one is never required.
\<close>

theorem generic_can_names_never_missing:
  assumes "initialize_main_params am pn title letter bracket resistor dropdown = Inr self"
    and "element_name self = ''Radar''"
    and "letter_identifier self \<in> {Some ''R'', Some ''SC'', Some ''X''}"
  shows "''with CAN termination'' \<notin> set (missing_elements_of self titles)
         \<and> ''wo CAN termination'' \<notin> set (missing_elements_of self titles)"
proof -
  let ?req = "get_required_elements self (element_name self)"
  let ?m0 = "first_pass ?req titles"
  have radar: "radar_in_title self"
    using assms(1,2) by (rule initialize_radar_in_title)
  have c: "count_list ?m0 x \<le> 1" for x
    using count_first_pass [of ?req titles x] count_required_elements [of self "element_name self" x]
    by simp
  have sub: "x \<in> set ?m0 \<Longrightarrow> x \<in> set ?req" for x
    by (simp add: first_pass_def)
  have "''with CAN termination'' \<notin> set (radar_corrections self titles ?m0)
        \<and> ''wo CAN termination'' \<notin> set (radar_corrections self titles ?m0)"
    using radar assms(3) c c
  proof (rule radar_corrections_generic)
    show "''with CAN termination'' \<in> set ?m0 \<Longrightarrow> chbx_resistor self"
      using sub required_with_can by blast
    show "''wo CAN termination'' \<in> set ?m0 \<Longrightarrow> \<not> chbx_resistor self"
      using sub required_wo_can by blast
  qed
  then show ?thesis
    unfolding missing_elements_of_def
    by (intro conjI later_corrections_keep_out) simp_all
qed

theorem generic_can_names_never_missing_witness:
  "''with CAN termination'' \<notin> set (missing_elements_of radar_x_part rows_without_boot)
   \<and> ''wo CAN termination'' \<notin> set (missing_elements_of radar_x_part rows_without_boot)"
proof -
  have "element_name radar_x_part = ''Radar''"
    and "letter_identifier radar_x_part \<in> {Some ''R'', Some ''SC'', Some ''X''}"
    by (simp_all add: radar_x_part_def)
  then show ?thesis
    by (rule generic_can_names_never_missing [OF radar_x_part_initialized])
qed

lemma rows_without_boot_missing:
  "missing_elements_of radar_x_part rows_without_boot = [''Boot Software'', ''Boot Software'']"
  by code_simp


section \<open>Dataset inference\<close>

lemma dataset_inference_applies:
  assumes "2 \<le> length (filter (\<lambda>(t, q, d, i). str_in ''Software'' t) titles)"
    and "list_ex (\<lambda>(t, q, d, i). str_in ''Software'' t
             \<and> (str_in ''DATASET'' (upper d) \<or> str_in ''DATA SET'' (upper d))) titles"
    and "count_list m ''Dataset'' \<le> 1"
  shows "''Dataset'' \<notin> set (dataset_inference titles m)"
proof -
  let ?soft = "filter (\<lambda>(title, _, _, _). str_in ''software'' (lower title)) titles"
  have "length (filter (\<lambda>(t, q, d, i). str_in ''Software'' t) titles) \<le> length ?soft"
    by (rule length_filter_mono) (auto simp: str_in_software)
  then have two: "2 \<le> length ?soft"
    using assms(1) by simp
  obtain t q d i where row: "(t, q, d, i) \<in> set titles" "str_in ''Software'' t"
      "str_in ''DATASET'' (upper d) \<or> str_in ''DATA SET'' (upper d)"
    using assms(2) by (auto simp: list_ex_iff)
  then have "(t, q, d, i) \<in> set ?soft"
    by (simp add: str_in_software)
  then have ex: "list_ex (\<lambda>(_, _, description, _).
                    str_in ''DATASET'' (upper description)
                    \<or> str_in ''DATA SET'' (upper description)) ?soft"
    using row(3) unfolding list_ex_iff by (intro bexI [of _ "(t, q, d, i)"]) simp_all
  show ?thesis
    using two ex assms(3)
    by (simp add: dataset_inference_def Let_def remove1_last_occurrence)
qed

lemma required_dataset:
  "''Dataset'' \<in> set (get_required_elements self name) \<Longrightarrow>
   (name = ''Radar'' \<or> name = ''Camera'')
   \<and> letter_identifier self \<in> {Some ''R'', Some ''SC'', Some ''X''}"
  by (auto simp: get_required_elements_def Let_def split: if_splits)

text \<open>
  C7. When at least two rows have a title that contains \<open>Software\<close> and the
  description of one of them contains \<open>DATASET\<close> or \<open>DATA SET\<close> in any case,
  \<open>Dataset\<close> is not in the missing list. This holds for every initialised object and
  whether or not a title contains \<open>Dataset\<close>.
\<close>

theorem dataset_inference_satisfied:
  assumes "initialize_main_params am pn title letter bracket resistor dropdown = Inr self"
    and "2 \<le> length (filter (\<lambda>(t, q, d, i). str_in ''Software'' t) titles)"
    and "list_ex (\<lambda>(t, q, d, i). str_in ''Software'' t
             \<and> (str_in ''DATASET'' (upper d) \<or> str_in ''DATA SET'' (upper d))) titles"
  shows "''Dataset'' \<notin> set (missing_elements_of self titles)"
proof -
  let ?req = "get_required_elements self (element_name self)"
  let ?m0 = "first_pass ?req titles"
  let ?letters = "{Some ''R'', Some ''SC'', Some ''X''}"
  have c0: "count_list ?m0 ''Dataset'' \<le> 1"
    using count_first_pass [of ?req titles "''Dataset''"]
      count_required_elements [of self "element_name self" "''Dataset''"]
    by simp
  have keep_camera: "''Dataset'' \<notin> set m \<Longrightarrow> ''Dataset'' \<notin> set (camera_corrections self titles m)" for m
    by (intro not_in_set_count_le [OF count_camera_corrections]) simp_all
  have keep_bracket: "''Dataset'' \<notin> set m \<Longrightarrow> ''Dataset'' \<notin> set (bracket_corrections self titles m)" for m
    by (intro not_in_set_count_le [OF count_bracket_corrections]) simp_all
  show ?thesis
  proof (cases "radar_in_title self \<and> letter_identifier self \<in> ?letters")
    case True
    let ?m1 = "dataset_inference titles ?m0"
    have "''Dataset'' \<notin> set ?m1"
      using assms(2,3) c0 by (rule dataset_inference_applies)
    then have "''Dataset'' \<notin> set (boot_software_check ''boot software'' titles ?m1)"
      by (intro not_in_set_count_le [OF count_boot_software_check]) simp_all
    then have 3: "''Dataset'' \<notin> set (software_version_check ''VER FU'' 6 titles
                     (boot_software_check ''boot software'' titles ?m1))"
      by (intro not_in_set_count_le [OF count_software_version_check]) simp_all
    have "''Dataset'' \<notin> set (can_termination_check g r qual titles
                     (software_version_check ''VER FU'' 6 titles
                        (boot_software_check ''boot software'' titles ?m1)))"
      if "''Dataset'' \<noteq> qual" for g r qual
      using that 3 by (intro not_in_set_count_le [OF count_can_termination_check]) simp_all
    then have "''Dataset'' \<notin> set (radar_corrections self titles ?m0)"
      using True by (simp add: radar_corrections_def Let_def)
    then show ?thesis
      unfolding missing_elements_of_def by (intro keep_bracket keep_camera)
  next
    case noradar: False
    then have r: "radar_corrections self titles ?m0 = ?m0"
      by (auto simp: radar_corrections_def)
    show ?thesis
    proof (cases "camera_in_title self \<and> letter_identifier self \<in> ?letters")
      case True
      have step: "''Dataset'' \<notin> set (software_version_check ''NA'' 6 titles
                     (boot_software_check ''boot'' titles (dataset_inference titles m1)))"
        if "count_list m1 ''Dataset'' \<le> 1" for m1
      proof -
        have "''Dataset'' \<notin> set (dataset_inference titles m1)"
          using assms(2,3) that by (rule dataset_inference_applies)
        then have "''Dataset'' \<notin> set (boot_software_check ''boot'' titles (dataset_inference titles m1))"
          by (intro not_in_set_count_le [OF count_boot_software_check]) simp_all
        then show ?thesis
          by (intro not_in_set_count_le [OF count_software_version_check]) simp_all
      qed
      have a: "count_list (replace_first ''Camera'' ''Camera (K188332H000)'' ?m0) ''Dataset'' \<le> 1"
        using count_list_replace_first_le [of "''Dataset''" "''Camera (K188332H000)''" "''Camera''" ?m0] c0
        by simp
      have b: "count_list (?m0 @ [''Camera (K188332H000)'']) ''Dataset'' \<le> 1"
        using c0 by simp
      have "''Dataset'' \<notin> set (camera_corrections self titles ?m0)"
        using True step [OF c0] step [OF a] step [OF b]
        by (simp add: camera_corrections_def Let_def)
      then show ?thesis
        unfolding missing_elements_of_def r by (rule keep_bracket)
    next
      case nocamera: False
      have "''Dataset'' \<notin> set ?req"
      proof
        assume "''Dataset'' \<in> set ?req"
        then have "(element_name self = ''Radar'' \<or> element_name self = ''Camera'')
                   \<and> letter_identifier self \<in> ?letters"
          by (rule required_dataset)
        then show False
          using noradar nocamera initialize_radar_in_title [OF assms(1)]
            initialize_camera_in_title [OF assms(1)]
          by blast
      qed
      then have "''Dataset'' \<notin> set ?m0"
        by (simp add: first_pass_def)
      then show ?thesis
        unfolding missing_elements_of_def r by (intro keep_bracket keep_camera)
    qed
  qed
qed

theorem dataset_inference_satisfied_witness:
  "''Dataset'' \<notin> set (missing_elements_of radar_x_part dataset_scenario_rows)"
proof -
  have two: "2 \<le> length (filter (\<lambda>(t, q, d, i). str_in ''Software'' t) dataset_scenario_rows)"
    by code_simp
  have one: "list_ex (\<lambda>(t, q, d, i). str_in ''Software'' t
                \<and> (str_in ''DATASET'' (upper d) \<or> str_in ''DATA SET'' (upper d)))
               dataset_scenario_rows"
    by code_simp
  show ?thesis
    using radar_x_part_initialized two one by (rule dataset_inference_satisfied)
qed

text \<open>In the scenario no title contains \<open>Dataset\<close>, and the first pass misses it.\<close>

lemma dataset_scenario_first_pass:
  "''Dataset'' \<in> set (first_pass (get_required_elements radar_x_part (element_name radar_x_part))
                         dataset_scenario_rows)"
  by code_simp


section \<open>The list of missing documents\<close>

lemma check_doc_type_missing:
  "fst (snd (check_doc_type rd dt st)) = fst (snd st) @ missing_of_type rd dt"
  by (simp add: check_doc_type_def missing_of_type_def Let_def)

lemma fold_check_doc_type_missing:
  "fst (snd (fold (check_doc_type rd) ds st)) = fst (snd st) @ concat (map (missing_of_type rd) ds)"
  by (induction ds arbitrary: st) (simp_all add: check_doc_type_missing)

lemma fold_identity:
  "list_all (\<lambda>(index, kind, state). f index = id) rows \<Longrightarrow>
   fold (\<lambda>(index, kind, state). f index) rows u = u"
  by (induction rows) auto

lemma mark_languages_identity:
  "''US'' \<notin> set (title_langs index) \<Longrightarrow> ''EN'' \<notin> set (title_langs index) \<Longrightarrow>
   mark_languages index = id"
  by (rule ext) (simp add: mark_languages_def Let_def)

lemma language_fold_keeps:
  assumes "list_all (\<lambda>(index, kind, state).
       ''US'' \<notin> set (title_langs index) \<and> ''EN'' \<notin> set (title_langs index)) rows"
  shows "fold (\<lambda>(index, kind, state). mark_languages index) rows us = us"
proof (rule fold_identity)
  show "list_all (\<lambda>(index, kind, state). mark_languages index = id) rows"
    using assms by (auto simp: list_all_iff mark_languages_identity)
qed

lemma check_doc_type_us:
  assumes "list_all (\<lambda>(index, kind, state). kind = ''Service Data'' \<longrightarrow>
             ''US'' \<notin> set (title_langs index) \<and> ''EN'' \<notin> set (title_langs index)) rd"
  shows "snd (snd (check_doc_type rd dt st)) = snd (snd st)"
proof -
  have "list_all (\<lambda>(index, kind, state).
          ''US'' \<notin> set (title_langs index) \<and> ''EN'' \<notin> set (title_langs index))
          (filter (\<lambda>(index, kind, state). kind = ''Service Data'') rd)"
    using assms by (auto simp: list_all_iff)
  then show ?thesis
    by (simp add: check_doc_type_def Let_def language_fold_keeps)
qed

lemma fold_check_doc_type_us:
  assumes "list_all (\<lambda>(index, kind, state). kind = ''Service Data'' \<longrightarrow>
             ''US'' \<notin> set (title_langs index) \<and> ''EN'' \<notin> set (title_langs index)) rd"
  shows "snd (snd (fold (check_doc_type rd) ds st)) = snd (snd st)"
proof (induction ds arbitrary: st)
  case Nil
  show ?case by simp
next
  case (Cons dt ds)
  show ?case
    using Cons [of "check_doc_type rd dt st"] check_doc_type_us [OF assms, of dt st] by simp
qed

lemma missing_of_type_other:
  "dt \<noteq> ''Assembly Drawing'' \<Longrightarrow>
   missing_of_type rd dt
     = (if filter (\<lambda>(index, kind, state). kind = dt) rd = [] then [dt] else [])"
  unfolding missing_of_type_def Let_def by (simp only: if_False)

lemma missing_of_type_assembly:
  "missing_of_type rd ''Assembly Drawing''
     = (let rows = filter (\<lambda>(index, kind, state). kind = ''Assembly Drawing'') rd;
            schedule = (\<lambda>(index, kind, state). str_in ''schedule'' (lower index))
        in if rows = [] then [''Assembly Drawing Schedule'', ''Assembly Drawing CAD'']
           else (if \<not> list_ex schedule rows then [''Assembly Drawing Schedule''] else [])
                @ (if list_all schedule rows then [''Assembly Drawing CAD''] else []))"
  unfolding missing_of_type_def Let_def by (simp only: if_True refl)

lemma count_missing_of_type_other:
  assumes "dt \<noteq> ''Assembly Drawing''"
  shows "count_list (missing_of_type rd dt) x \<le> count_list [dt] x"
  unfolding missing_of_type_other [OF assms] by (simp only: count_list.simps split: if_splits) simp

lemma count_missing_of_type:
  assumes "x \<noteq> ''Assembly Drawing Schedule''" and "x \<noteq> ''Assembly Drawing CAD''"
  shows "count_list (missing_of_type rd dt) x \<le> count_list [dt] x"
proof (cases "dt = ''Assembly Drawing''")
  case True
  have "count_list (missing_of_type rd ''Assembly Drawing'') x = 0"
    unfolding missing_of_type_assembly Let_def using assms by (simp split: if_splits)
  with True show ?thesis by simp
next
  case False
  then show ?thesis by (rule count_missing_of_type_other)
qed

lemma count_concat_missing_of_type:
  assumes "x \<noteq> ''Assembly Drawing Schedule''" and "x \<noteq> ''Assembly Drawing CAD''"
  shows "count_list (concat (map (missing_of_type rd) ds)) x \<le> count_list ds x"
proof (induction ds)
  case Nil
  show ?case by simp
next
  case (Cons dt ds)
  have "count_list (concat (map (missing_of_type rd) (dt # ds))) x
        = count_list (missing_of_type rd dt) x
          + count_list (concat (map (missing_of_type rd) ds)) x"
    by simp
  also have "\<dots> \<le> count_list [dt] x + count_list ds x"
    using count_missing_of_type [OF assms, of rd dt] Cons by (rule add_mono)
  also have "\<dots> = count_list (dt # ds) x"
    by simp
  finally show ?case .
qed

lemma mem_missing_of_type_other:
  "dt \<noteq> ''Assembly Drawing'' \<Longrightarrow>
   (x \<in> set (missing_of_type rd dt))
     = (x = dt \<and> filter (\<lambda>(index, kind, state). kind = dt) rd = [])"
  unfolding missing_of_type_other by (simp split: if_splits)

lemma mem_concat_missing_of_type:
  assumes "x \<notin> set ds"
  shows "(x \<in> set (concat (map (missing_of_type rd) ds)))
         = (''Assembly Drawing'' \<in> set ds \<and> x \<in> set (missing_of_type rd ''Assembly Drawing''))"
  using assms
proof (induction ds)
  case Nil
  show ?case by simp
next
  case (Cons dt ds)
  show ?case
  proof (cases "dt = ''Assembly Drawing''")
    case True
    with Cons show ?thesis by auto
  next
    case False
    have "x \<notin> set (missing_of_type rd dt)"
      using Cons.prems mem_missing_of_type_other [OF False, of x rd] by simp
    with Cons False show ?thesis by auto
  qed
qed

lemma schedule_missing_iff:
  "(''Assembly Drawing Schedule'' \<in> set (missing_of_type rd ''Assembly Drawing''))
     = (\<not> list_ex (\<lambda>(index, kind, state). str_in ''schedule'' (lower index))
            (filter (\<lambda>(index, kind, state). kind = ''Assembly Drawing'') rd))"
  unfolding missing_of_type_assembly Let_def by (simp split: if_splits)

lemma cad_missing_iff:
  "(''Assembly Drawing CAD'' \<in> set (missing_of_type rd ''Assembly Drawing''))
     = list_all (\<lambda>(index, kind, state). str_in ''schedule'' (lower index))
            (filter (\<lambda>(index, kind, state). kind = ''Assembly Drawing'') rd)"
  unfolding missing_of_type_assembly Let_def by (simp split: if_splits)

lemma assembly_not_missing:
  "''Assembly Drawing'' \<notin> set (missing_of_type rd ''Assembly Drawing'')"
  unfolding missing_of_type_assembly Let_def by (simp split: if_splits)

lemma required_docs_of_distinct:
  "required_docs_of self = (Some rd, optional, note) \<Longrightarrow> distinct rd"
  by (auto simp: required_docs_of_def Let_def split: if_splits)

lemma required_docs_of_no_subtype:
  "required_docs_of self = (Some rd, optional, note) \<Longrightarrow>
   ''Assembly Drawing Schedule'' \<notin> set rd \<and> ''Assembly Drawing CAD'' \<notin> set rd"
  by (auto simp: required_docs_of_def Let_def split: if_splits)

lemma validate_required_docs_missing:
  assumes "documents \<noteq> []" and "required_docs_of self = (Some rd, optional, note)"
    and "validate_required_docs self documents = Inr r"
  shows "missing_documents r =
     (let rds = filter (\<lambda>(index, kind, state).
                          kind \<in> set rd \<and> state \<in> set required_states) documents;
          st = fold (check_doc_type rds) rd ([], [], True);
          m = fst (snd st);
          m = (if dropdown_value (type_dropdown self) \<in> set language_families \<and> snd (snd st)
               then (if ''Service Data'' \<in> set m then remove1 ''Service Data'' m else m)
                    @ [''Service Data - US'']
               else m)
      in if dropdown_value (type_dropdown self) \<in> set [''FLC-25 Bracket'']
         then map (\<lambda>item. if item \<noteq> ''Process Data Sheet'' then item
                           else ''Process Data Sheet (BWs)'') m
         else m)"
  using assms
  by (auto simp: validate_required_docs_def Let_def split: if_splits option.splits)

lemma language_step_mem:
  "x \<noteq> ''Service Data'' \<Longrightarrow> x \<noteq> ''Service Data - US'' \<Longrightarrow>
   (x \<in> set ((if ''Service Data'' \<in> set m then remove1 ''Service Data'' m else m)
               @ [''Service Data - US'']))
     = (x \<in> set m)"
  by (simp add: in_set_remove1)

lemma rename_step_mem:
  "x \<noteq> ''Process Data Sheet'' \<Longrightarrow> x \<noteq> ''Process Data Sheet (BWs)'' \<Longrightarrow>
   (x \<in> set (map (\<lambda>item. if item \<noteq> ''Process Data Sheet'' then item
                             else ''Process Data Sheet (BWs)'') m))
     = (x \<in> set m)"
  by (induction m) auto

lemma assembly_never_missing:
  "''Assembly Drawing'' \<notin> set (concat (map (missing_of_type rd) ds))"
proof (induction ds)
  case Nil
  show ?case by simp
next
  case (Cons dt ds)
  have "''Assembly Drawing'' \<notin> set (missing_of_type rd dt)"
  proof (cases "dt = ''Assembly Drawing''")
    case True
    then show ?thesis using assembly_not_missing by simp
  next
    case False
    then show ?thesis
      using mem_missing_of_type_other [OF False, of "''Assembly Drawing''" rd] by auto
  qed
  with Cons show ?case by simp
qed

lemma filter_kind_required:
  "doc_type \<in> set rd \<Longrightarrow>
   filter (\<lambda>(index, kind, state). kind = doc_type)
     (filter (\<lambda>(index, kind, state). kind \<in> set rd \<and> state \<in> set required_states) documents)
   = filter (\<lambda>(index, kind, state). kind = doc_type \<and> state \<in> set required_states) documents"
  by (induction documents) auto

lemma final_steps_mem:
  assumes "x \<noteq> ''Service Data''" and "x \<noteq> ''Service Data - US''"
    and "x \<noteq> ''Process Data Sheet''" and "x \<noteq> ''Process Data Sheet (BWs)''"
  shows "(x \<in> set (if b2
            then map (\<lambda>item. if item \<noteq> ''Process Data Sheet'' then item
                              else ''Process Data Sheet (BWs)'')
                   (if b1 then (if ''Service Data'' \<in> set m then remove1 ''Service Data'' m else m)
                               @ [''Service Data - US'']
                    else m)
            else (if b1 then (if ''Service Data'' \<in> set m then remove1 ''Service Data'' m else m)
                             @ [''Service Data - US'']
                  else m)))
         = (x \<in> set m)"
proof -
  let ?l = "(if ''Service Data'' \<in> set m then remove1 ''Service Data'' m else m)
            @ [''Service Data - US'']"
  have l: "(x \<in> set ?l) = (x \<in> set m)"
    using assms(1,2) by (rule language_step_mem)
  have r: "(x \<in> set (map (\<lambda>item. if item \<noteq> ''Process Data Sheet'' then item
                              else ''Process Data Sheet (BWs)'') n)) = (x \<in> set n)" for n
    using assms(3,4) by (rule rename_step_mem)
  show ?thesis
  proof (cases b1)
    case True
    show ?thesis
    proof (cases b2)
      case True
      with \<open>b1\<close> show ?thesis using r [of ?l] l by (simp only: if_True)
    next
      case False
      with \<open>b1\<close> show ?thesis using l by (simp only: if_True if_False)
    qed
  next
    case False
    show ?thesis
    proof (cases b2)
      case True
      with \<open>\<not> b1\<close> show ?thesis using r [of m] by (simp only: if_True if_False)
    next
      case False
      with \<open>\<not> b1\<close> show ?thesis by (simp only: if_False)
    qed
  qed
qed

lemma validate_required_docs_mem:
  assumes "documents \<noteq> []" and "required_docs_of self = (Some rd, optional, note)"
    and "validate_required_docs self documents = Inr r"
    and "x \<noteq> ''Service Data''" and "x \<noteq> ''Service Data - US''"
    and "x \<noteq> ''Process Data Sheet''" and "x \<noteq> ''Process Data Sheet (BWs)''"
  shows "(x \<in> set (missing_documents r))
         = (x \<in> set (concat (map (missing_of_type
               (filter (\<lambda>(index, kind, state).
                          kind \<in> set rd \<and> state \<in> set required_states) documents)) rd)))"
proof -
  let ?rds = "filter (\<lambda>(index, kind, state).
                kind \<in> set rd \<and> state \<in> set required_states) documents"
  let ?m = "concat (map (missing_of_type ?rds) rd)"
  have m: "fst (snd (fold (check_doc_type ?rds) rd ([], [], True))) = ?m"
    by (simp add: fold_check_doc_type_missing)
  show ?thesis
    unfolding validate_required_docs_missing [OF assms(1,2,3)] Let_def m
    using assms(4,5,6,7) by (rule final_steps_mem)
qed

lemma list_all_nonempty_ex: "xs \<noteq> [] \<Longrightarrow> list_all P xs \<Longrightarrow> list_ex P xs"
  by (cases xs) simp_all

lemma camera_r_part_required_docs:
  "required_docs_of camera_r_part
   = (Some [''Assembly Drawing'', ''Installation Drawing'', ''Service Data''], None, False)"
  by code_simp

lemma example_documents_result:
  "validate_required_docs camera_r_part example_documents
   = Inr \<lparr>no_documents_found = False, no_documents_required = False,
           missing_documents = [''Assembly Drawing Schedule'', ''Installation Drawing'',
                                ''Service Data - US''],
           service_data_advice = True, optional_advice = [], all_present = None,
           present_documents = example_documents\<rparr>"
  by code_simp


section \<open>The assembly drawing\<close>

text \<open>
  C6, as the code has it. On a non-empty set of documents and a profile that requires
  the assembly drawing, with the records of that kind in an accepted state:
  \<open>Assembly Drawing Schedule\<close> is reported missing exactly when no title of such a
  record contains \<open>schedule\<close> in any case, and \<open>Assembly Drawing CAD\<close> exactly when
  every title does. So both are missing when there is no such record, at most one of
  them is missing when there is one, and \<open>Assembly Drawing\<close> itself is never reported.
\<close>

theorem assembly_drawing_rule:
  assumes "documents \<noteq> []"
    and "required_docs_of self = (Some rd, optional, note)"
    and "''Assembly Drawing'' \<in> set rd"
    and "validate_required_docs self documents = Inr r"
  shows "(''Assembly Drawing Schedule'' \<in> set (missing_documents r))
           = (\<not> list_ex (\<lambda>(index, kind, state). str_in ''schedule'' (lower index))
                  (filter (\<lambda>(index, kind, state).
                     kind = ''Assembly Drawing'' \<and> state \<in> set required_states) documents))
         \<and> (''Assembly Drawing CAD'' \<in> set (missing_documents r))
           = list_all (\<lambda>(index, kind, state). str_in ''schedule'' (lower index))
               (filter (\<lambda>(index, kind, state).
                  kind = ''Assembly Drawing'' \<and> state \<in> set required_states) documents)
         \<and> ''Assembly Drawing'' \<notin> set (missing_documents r)
         \<and> (filter (\<lambda>(index, kind, state).
                kind = ''Assembly Drawing'' \<and> state \<in> set required_states) documents = []
             \<or> \<not> (''Assembly Drawing Schedule'' \<in> set (missing_documents r)
                    \<and> ''Assembly Drawing CAD'' \<in> set (missing_documents r)))"
proof -
  let ?rds = "filter (\<lambda>(index, kind, state).
                kind \<in> set rd \<and> state \<in> set required_states) documents"
  let ?m = "concat (map (missing_of_type ?rds) rd)"
  have rows: "filter (\<lambda>(index, kind, state). kind = ''Assembly Drawing'') ?rds
              = filter (\<lambda>(index, kind, state).
                  kind = ''Assembly Drawing'' \<and> state \<in> set required_states) documents"
    using assms(3) by (rule filter_kind_required)
  have sub: "''Assembly Drawing Schedule'' \<notin> set rd" "''Assembly Drawing CAD'' \<notin> set rd"
    using required_docs_of_no_subtype [OF assms(2)] by simp_all
  have "(''Assembly Drawing Schedule'' \<in> set (missing_documents r))
        = (''Assembly Drawing Schedule'' \<in> set ?m)"
    using assms(1,2,4) by (rule validate_required_docs_mem) simp_all
  also have "\<dots> = (''Assembly Drawing Schedule'' \<in> set (missing_of_type ?rds ''Assembly Drawing''))"
    using mem_concat_missing_of_type [OF sub(1), of ?rds] assms(3) by simp
  finally have 1: "(''Assembly Drawing Schedule'' \<in> set (missing_documents r))
           = (\<not> list_ex (\<lambda>(index, kind, state). str_in ''schedule'' (lower index))
                  (filter (\<lambda>(index, kind, state).
                     kind = ''Assembly Drawing'' \<and> state \<in> set required_states) documents))"
    unfolding schedule_missing_iff rows .
  have "(''Assembly Drawing CAD'' \<in> set (missing_documents r))
        = (''Assembly Drawing CAD'' \<in> set ?m)"
    using assms(1,2,4) by (rule validate_required_docs_mem) simp_all
  also have "\<dots> = (''Assembly Drawing CAD'' \<in> set (missing_of_type ?rds ''Assembly Drawing''))"
    using mem_concat_missing_of_type [OF sub(2), of ?rds] assms(3) by simp
  finally have 2: "(''Assembly Drawing CAD'' \<in> set (missing_documents r))
           = list_all (\<lambda>(index, kind, state). str_in ''schedule'' (lower index))
               (filter (\<lambda>(index, kind, state).
                  kind = ''Assembly Drawing'' \<and> state \<in> set required_states) documents)"
    unfolding cad_missing_iff rows .
  have "(''Assembly Drawing'' \<in> set (missing_documents r)) = (''Assembly Drawing'' \<in> set ?m)"
    using assms(1,2,4) by (rule validate_required_docs_mem) simp_all
  then have 3: "''Assembly Drawing'' \<notin> set (missing_documents r)"
    using assembly_never_missing [of ?rds rd] by simp
  have 4: "filter (\<lambda>(index, kind, state).
                kind = ''Assembly Drawing'' \<and> state \<in> set required_states) documents = []
             \<or> \<not> (''Assembly Drawing Schedule'' \<in> set (missing_documents r)
                    \<and> ''Assembly Drawing CAD'' \<in> set (missing_documents r))"
  proof (cases "filter (\<lambda>(index, kind, state).
                  kind = ''Assembly Drawing'' \<and> state \<in> set required_states) documents = []")
    case True
    then show ?thesis by (rule disjI1)
  next
    case False
    have "\<not> (\<not> list_ex (\<lambda>(index, kind, state). str_in ''schedule'' (lower index))
                  (filter (\<lambda>(index, kind, state).
                     kind = ''Assembly Drawing'' \<and> state \<in> set required_states) documents)
             \<and> list_all (\<lambda>(index, kind, state). str_in ''schedule'' (lower index))
                  (filter (\<lambda>(index, kind, state).
                     kind = ''Assembly Drawing'' \<and> state \<in> set required_states) documents))"
      using list_all_nonempty_ex [OF False] by blast
    then show ?thesis
      unfolding 1 2 by (rule disjI2)
  qed
  show ?thesis
    using 1 2 3 4 by (intro conjI)
qed

theorem assembly_drawing_rule_witness:
  "case validate_required_docs camera_r_part example_documents of
     Inl e \<Rightarrow> False
   | Inr r \<Rightarrow> ''Assembly Drawing Schedule'' \<in> set (missing_documents r)
            \<and> ''Assembly Drawing CAD'' \<notin> set (missing_documents r)"
proof -
  have ne: "example_documents \<noteq> []"
    by (simp add: example_documents_def)
  have req: "''Assembly Drawing'' \<in> set [''Assembly Drawing'', ''Installation Drawing'',
                                          ''Service Data'']"
    by simp
  have ex: "\<not> list_ex (\<lambda>(index, kind, state). str_in ''schedule'' (lower index))
                (filter (\<lambda>(index, kind, state).
                   kind = ''Assembly Drawing'' \<and> state \<in> set required_states)
                   example_documents)"
    by code_simp
  have al: "\<not> list_all (\<lambda>(index, kind, state). str_in ''schedule'' (lower index))
                (filter (\<lambda>(index, kind, state).
                   kind = ''Assembly Drawing'' \<and> state \<in> set required_states)
                   example_documents)"
    by code_simp
  show ?thesis
    using assembly_drawing_rule [OF ne camera_r_part_required_docs req example_documents_result]
      ex al
    by (simp only: example_documents_result sum.case simp_thms)
qed

text \<open>
  C6 as stated fails on an empty set of documents: the assembly drawing is required and
  no record of it exists, and the call returns its note that no documents were found,
  with nothing reported missing.
\<close>

theorem no_documents_counterexample:
  "fst (required_docs_of camera_r_part)
     = Some [''Assembly Drawing'', ''Installation Drawing'', ''Service Data'']
   \<and> documents_run ''K012345R67'' ''Camera'' (Some ''R'') False False FLC_25 []
       = Inr \<lparr>no_documents_found = True, no_documents_required = False,
               missing_documents = [], service_data_advice = False, optional_advice = [],
               all_present = None, present_documents = []\<rparr>"
  by code_simp

text \<open>
  On an empty set of documents every object gets that result: the note that no documents
  were found, and nothing reported missing.
\<close>

lemma validate_required_docs_empty:
  "validate_required_docs self []
   = Inr \<lparr>no_documents_found = True, no_documents_required = False,
           missing_documents = [], service_data_advice = False, optional_advice = [],
           all_present = None, present_documents = []\<rparr>"
  by (simp add: validate_required_docs_def)


section \<open>Service data and its languages\<close>

lemma language_family_not_bracket:
  "dropdown_value d \<in> set language_families \<Longrightarrow>
   dropdown_value d \<notin> set [''FLR-25 Bracket'', ''FLC-25 Bracket'']
   \<and> dropdown_value d \<notin> set [''FLC-25 Bracket'']
   \<and> dropdown_value d \<notin> set [''FLC-25 Cover'']"
  by (cases d) (simp_all add: language_families_def)

lemma initialize_type_dropdown:
  "initialize_main_params am pn title letter bracket resistor dropdown = Inr self \<Longrightarrow>
   type_dropdown self = dropdown"
  by (auto simp: initialize_main_params_def Let_def split: if_splits)

lemma initialize_language_family:
  assumes "initialize_main_params am pn title letter bracket resistor dropdown = Inr self"
    and "dropdown_value dropdown \<in> set language_families"
  shows "element_name self = ''Radar'' \<or> element_name self = ''Camera''"
  using assms(1) language_family_not_bracket [OF assms(2)]
  by (auto simp: initialize_main_params_def Let_def split: if_splits)

lemma required_docs_of_sensor:
  assumes "element_name self = ''Radar'' \<or> element_name self = ''Camera''"
  shows "\<exists>rd. required_docs_of self = (Some rd, None, False) \<and> ''Service Data'' \<in> set rd"
  using assms by (auto simp: required_docs_of_def)

lemma validate_required_docs_returns:
  assumes "documents \<noteq> []" and "required_docs_of self = (Some rd, optional, note)"
    and "dropdown_value (type_dropdown self) \<notin> set [''FLR-25 Bracket'', ''FLC-25 Bracket'']"
  shows "\<exists>r. validate_required_docs self documents = Inr r"
  using assms by (simp add: validate_required_docs_def Let_def)

text \<open>
  C8. For a part of a family with the language rule (FLC-20, FLR-21, FLC-25, FLR-25)
  and a non-empty set of documents: when no service-data record in an accepted state
  names \<open>US\<close> or \<open>EN\<close> among the language tokens of its title, the call returns,
  \<open>Service Data - US\<close> is reported missing and the generic \<open>Service Data\<close> is not.
  This covers the case of the claim, where such records exist, and the case without any.
\<close>

theorem service_data_language_coverage:
  assumes "initialize_main_params am pn title letter bracket resistor dropdown = Inr self"
    and "dropdown_value dropdown \<in> set language_families"
    and "documents \<noteq> []"
    and "list_all (\<lambda>(index, kind, state).
            kind = ''Service Data'' \<and> state \<in> set required_states \<longrightarrow>
            ''US'' \<notin> set (title_langs index) \<and> ''EN'' \<notin> set (title_langs index)) documents"
  shows "\<exists>r. validate_required_docs self documents = Inr r
             \<and> ''Service Data - US'' \<in> set (missing_documents r)
             \<and> ''Service Data'' \<notin> set (missing_documents r)"
proof -
  have dd: "type_dropdown self = dropdown"
    using assms(1) by (rule initialize_type_dropdown)
  have fam: "dropdown_value (type_dropdown self) \<in> set language_families"
    using assms(2) dd by simp
  note nb = language_family_not_bracket [OF fam]
  obtain rd where rd: "required_docs_of self = (Some rd, None, False)"
    using required_docs_of_sensor [OF initialize_language_family [OF assms(1,2)]] by blast
  obtain r where r: "validate_required_docs self documents = Inr r"
    using validate_required_docs_returns [OF assms(3) rd] nb by blast
  let ?rds = "filter (\<lambda>(index, kind, state).
                kind \<in> set rd \<and> state \<in> set required_states) documents"
  let ?m = "concat (map (missing_of_type ?rds) rd)"
  have m: "fst (snd (fold (check_doc_type ?rds) rd ([], [], True))) = ?m"
    by (simp add: fold_check_doc_type_missing)
  have "list_all (\<lambda>(index, kind, state). kind = ''Service Data'' \<longrightarrow>
             ''US'' \<notin> set (title_langs index) \<and> ''EN'' \<notin> set (title_langs index)) ?rds"
    using assms(4) by (auto simp: list_all_iff)
  then have us: "snd (snd (fold (check_doc_type ?rds) rd ([], [], True)))"
    using fold_check_doc_type_us [of ?rds rd "([], [], True)"] by simp
  have missing: "missing_documents r
        = (if ''Service Data'' \<in> set ?m then remove1 ''Service Data'' ?m else ?m)
          @ [''Service Data - US'']"
    unfolding validate_required_docs_missing [OF assms(3) rd r] Let_def m
    using fam us nb by (simp only: simp_thms if_True if_False)
  have "count_list ?m ''Service Data'' \<le> count_list rd ''Service Data''"
    by (rule count_concat_missing_of_type) simp_all
  also have "\<dots> \<le> 1"
    using required_docs_of_distinct [OF rd] by (rule distinct_count_le_1)
  finally have "''Service Data'' \<notin> set (remove1 ''Service Data'' ?m)"
    by (rule remove1_last_occurrence)
  then have "''Service Data''
               \<notin> set (if ''Service Data'' \<in> set ?m then remove1 ''Service Data'' ?m else ?m)"
    by (simp split: if_splits)
  then have "''Service Data - US'' \<in> set (missing_documents r)
             \<and> ''Service Data'' \<notin> set (missing_documents r)"
    unfolding missing by simp
  with r show ?thesis by blast
qed

theorem service_data_language_coverage_witness:
  "case validate_required_docs camera_r_part example_documents of
     Inl e \<Rightarrow> False
   | Inr r \<Rightarrow> ''Service Data - US'' \<in> set (missing_documents r)
            \<and> ''Service Data'' \<notin> set (missing_documents r)"
proof -
  have fam: "dropdown_value FLC_25 \<in> set language_families"
    by (simp add: language_families_def)
  have ne: "example_documents \<noteq> []"
    by (simp add: example_documents_def)
  have fr: "list_all (\<lambda>(index, kind, state).
              kind = ''Service Data'' \<and> state \<in> set required_states \<longrightarrow>
              ''US'' \<notin> set (title_langs index) \<and> ''EN'' \<notin> set (title_langs index))
              example_documents"
    by code_simp
  show ?thesis
    using service_data_language_coverage [OF camera_r_part_initialized fam ne fr]
    by auto
qed

text \<open>The language tokens of the title of the scenario.\<close>

lemma title_langs_example: "title_langs ''DocX, FR'' = [''FR'']"
  by code_simp

end
